theory Spec2Isabelle
  imports Complex_Main "HOL-Library.Word" "HOL-Library.Signed_Division"
begin

section \<open>Vectors and machine integers\<close>

text \<open>
  A \<open>glm\<close> vector of three components is a triple.  Components are addressed by the
  axis index 0, 1, 2 as in the source (\<open>v[axis]\<close>).
\<close>

type_synonym 'a vec3 = "'a \<times> 'a \<times> 'a"

fun vget :: "'a vec3 \<Rightarrow> nat \<Rightarrow> 'a" where
  "vget (x, y, z) i = (if i = 0 then x else if i = 1 then y else z)"

fun vset :: "'a vec3 \<Rightarrow> nat \<Rightarrow> 'a \<Rightarrow> 'a vec3" where
  "vset (x, y, z) i v = (if i = 0 then (v, y, z) else if i = 1 then (x, v, z) else (x, y, v))"

text \<open>
  The C++ type \<open>int\<close> is 32 bits wide.  Signed overflow is undefined behaviour, so the
  models below compute on \<open>int\<close> and return \<open>None\<close> as soon as an intermediate
  result leaves the range.  The operators \<open>/\<close> and \<open>%\<close> of C++ truncate towards zero:
  they are \<open>sdiv\<close> and \<open>smod\<close>.
\<close>

definition int_ok :: "int \<Rightarrow> bool" where
  "int_ok v \<longleftrightarrow> - (2 ^ 31) \<le> v \<and> v < 2 ^ 31"

section \<open>Voxel keys (\<open>ohm::Key\<close>)\<close>

text \<open>
  A key is a region coordinate (\<open>glm::i16vec3\<close>) and a local coordinate inside the region
  (\<open>glm::u8vec3\<close>).
\<close>

record Key =
  regionKey :: "16 word vec3"
  localKey :: "8 word vec3"

text \<open>
  \<open>OccupancyMapDetail::moveKeyAlongAxis\<close> (OccupancyMapDetail.cpp).  The local coordinate is
  widened to \<open>int\<close>, stepped, and the overflow is carried into the 16-bit region coordinate;
  \<open>region_key[axis] += e\<close> computes in \<open>int\<close> and narrows the sum to 16 bits.  The
  constructor \<open>Key(region_key, x, y, z)\<close> narrows the local coordinates to 8 bits.
  Undefined behaviour (an axis outside 0..2, a zero divisor, signed overflow) is \<open>None\<close>.
\<close>

definition moveKeyAlongAxis :: "Key \<Rightarrow> nat \<Rightarrow> int \<Rightarrow> int vec3 \<Rightarrow> Key option" where
  "moveKeyAlongAxis key axis step region_voxel_dimensions =
    (let local_limits = region_voxel_dimensions in
     if step = 0 then Some key
     else if 2 < axis then None
     else
       let region_key = regionKey key;
           lim = vget local_limits axis;
           r0 = sint (vget region_key axis);
           l1 = uint (vget (localKey key) axis) + step
       in
       if \<not> int_ok l1 \<or> lim = 0 then None
       else if 0 < step then
         (let q = l1 sdiv lim;
              l2 = l1 smod lim
          in if \<not> int_ok q \<or> \<not> int_ok (r0 + q) then None
             else Some \<lparr> regionKey = vset region_key axis (word_of_int (r0 + q)),
                         localKey = vset (localKey key) axis (word_of_int l2) \<rparr>)
       else
         (let n = l1 - (lim - 1);
              q = n sdiv lim;
              l2 = (if l1 < 0
                    then (let l3 = lim + l1 smod lim in if l3 = lim then 0 else l3)
                    else l1)
          in if \<not> int_ok (lim - 1) \<or> \<not> int_ok n \<or> \<not> int_ok q \<or> \<not> int_ok (r0 + q)
                \<or> (l1 < 0 \<and> \<not> int_ok (lim + l1 smod lim)) then None
             else Some \<lparr> regionKey = vset region_key axis (word_of_int (r0 + q)),
                         localKey = vset (localKey key) axis (word_of_int l2) \<rparr>))"

text \<open>
  Modelled from the spec: \<open>OccupancyMap::rangeBetween\<close> is not part of the sources at hand.
  The specification describes it as the signed voxel delta per axis between two keys:
  the difference of the region coordinates scaled by the region dimension plus the
  difference of the local coordinates.
\<close>

definition rangeBetween :: "int vec3 \<Rightarrow> Key \<Rightarrow> Key \<Rightarrow> nat \<Rightarrow> int" where
  "rangeBetween dims from to axis =
     (sint (vget (regionKey to) axis) - sint (vget (regionKey from) axis)) * vget dims axis
     + (uint (vget (localKey to) axis) - uint (vget (localKey from) axis))"

text \<open>The data-model invariant of a key on one axis: the local coordinate is inside the region.\<close>

definition local_in_region :: "int vec3 \<Rightarrow> Key \<Rightarrow> nat \<Rightarrow> bool" where
  "local_in_region dims key axis \<longleftrightarrow> uint (vget (localKey key) axis) < vget dims axis"

text \<open>The region coordinate the step should reach, before narrowing to 16 bits.\<close>

definition stepped_region :: "int vec3 \<Rightarrow> Key \<Rightarrow> nat \<Rightarrow> int \<Rightarrow> int" where
  "stepped_region dims key axis n =
     sint (vget (regionKey key) axis) + (uint (vget (localKey key) axis) + n) div vget dims axis"

definition int16_ok :: "int \<Rightarrow> bool" where
  "int16_ok v \<longleftrightarrow> - (2 ^ 15) \<le> v \<and> v < 2 ^ 15"


section \<open>Floating point values\<close>

text \<open>
  The numeric kernels compute on \<open>float\<close> and \<open>double\<close>.  They are modelled by the
  real numbers extended with the three special values of IEEE 754, so that a division by
  zero, the logarithm of a non-positive number and the propagation of NaN are part of the
  model.  Finite results are exact: rounding, overflow of finite values to infinity and the
  sign of zero are not modelled (a zero divisor counts as \<open>+0\<close>), and the conversions
  between \<open>float\<close> and \<open>double\<close> are the identity.  The miss update of the NDT kernel is
  followed a second time with rounded operations, in a section of its own.
\<close>

datatype fl = Fin real | PInf | NInf | NaN

fun fneg :: "fl \<Rightarrow> fl" where
  "fneg (Fin a) = Fin (- a)"
| "fneg PInf = NInf"
| "fneg NInf = PInf"
| "fneg NaN = NaN"

fun fadd :: "fl \<Rightarrow> fl \<Rightarrow> fl" where
  "fadd (Fin a) (Fin b) = Fin (a + b)"
| "fadd NaN y = NaN"
| "fadd x NaN = NaN"
| "fadd PInf NInf = NaN"
| "fadd NInf PInf = NaN"
| "fadd PInf y = PInf"
| "fadd x PInf = PInf"
| "fadd NInf y = NInf"
| "fadd x NInf = NInf"

definition fsub :: "fl \<Rightarrow> fl \<Rightarrow> fl" where
  "fsub x y = fadd x (fneg y)"

fun fmul :: "fl \<Rightarrow> fl \<Rightarrow> fl" where
  "fmul (Fin a) (Fin b) = Fin (a * b)"
| "fmul NaN y = NaN"
| "fmul x NaN = NaN"
| "fmul PInf (Fin b) = (if b = 0 then NaN else if 0 < b then PInf else NInf)"
| "fmul NInf (Fin b) = (if b = 0 then NaN else if 0 < b then NInf else PInf)"
| "fmul (Fin a) PInf = (if a = 0 then NaN else if 0 < a then PInf else NInf)"
| "fmul (Fin a) NInf = (if a = 0 then NaN else if 0 < a then NInf else PInf)"
| "fmul PInf PInf = PInf"
| "fmul PInf NInf = NInf"
| "fmul NInf PInf = NInf"
| "fmul NInf NInf = PInf"

fun fdiv :: "fl \<Rightarrow> fl \<Rightarrow> fl" where
  "fdiv (Fin a) (Fin b) =
     (if b \<noteq> 0 then Fin (a / b) else if a = 0 then NaN else if 0 < a then PInf else NInf)"
| "fdiv NaN y = NaN"
| "fdiv x NaN = NaN"
| "fdiv (Fin a) PInf = Fin 0"
| "fdiv (Fin a) NInf = Fin 0"
| "fdiv PInf (Fin b) = (if 0 \<le> b then PInf else NInf)"
| "fdiv NInf (Fin b) = (if 0 \<le> b then NInf else PInf)"
| "fdiv PInf PInf = NaN"
| "fdiv PInf NInf = NaN"
| "fdiv NInf PInf = NaN"
| "fdiv NInf NInf = NaN"

fun fsqrt :: "fl \<Rightarrow> fl" where
  "fsqrt (Fin a) = (if 0 \<le> a then Fin (sqrt a) else NaN)"
| "fsqrt PInf = PInf"
| "fsqrt NInf = NaN"
| "fsqrt NaN = NaN"

fun fexp :: "fl \<Rightarrow> fl" where
  "fexp (Fin a) = Fin (exp a)"
| "fexp PInf = PInf"
| "fexp NInf = Fin 0"
| "fexp NaN = NaN"

fun flog :: "fl \<Rightarrow> fl" where
  "flog (Fin a) = (if 0 < a then Fin (ln a) else if a = 0 then NInf else NaN)"
| "flog PInf = PInf"
| "flog NInf = NaN"
| "flog NaN = NaN"

text \<open>Comparisons: every comparison with NaN is false, except \<open>!=\<close>.\<close>

fun feq :: "fl \<Rightarrow> fl \<Rightarrow> bool" where
  "feq (Fin a) (Fin b) = (a = b)"
| "feq PInf PInf = True"
| "feq NInf NInf = True"
| "feq NaN y = False"
| "feq x NaN = False"
| "feq (Fin a) PInf = False"
| "feq (Fin a) NInf = False"
| "feq PInf (Fin b) = False"
| "feq NInf (Fin b) = False"
| "feq PInf NInf = False"
| "feq NInf PInf = False"

fun flt :: "fl \<Rightarrow> fl \<Rightarrow> bool" where
  "flt (Fin a) (Fin b) = (a < b)"
| "flt NaN y = False"
| "flt x NaN = False"
| "flt x NInf = False"
| "flt PInf y = False"
| "flt NInf y = True"
| "flt x PInf = True"

definition fgt :: "fl \<Rightarrow> fl \<Rightarrow> bool" where
  "fgt x y = flt y x"

definition fge :: "fl \<Rightarrow> fl \<Rightarrow> bool" where
  "fge x y = (flt y x \<or> feq x y)"

definition fne :: "fl \<Rightarrow> fl \<Rightarrow> bool" where
  "fne x y = (\<not> feq x y)"

definition is_finite :: "fl \<Rightarrow> bool" where
  "is_finite x = (case x of Fin a \<Rightarrow> True | _ \<Rightarrow> False)"

text \<open>Vector operations of \<open>glm\<close> on three components.\<close>

fun vadd :: "fl vec3 \<Rightarrow> fl vec3 \<Rightarrow> fl vec3" where
  "vadd (x, y, z) (x', y', z') = (fadd x x', fadd y y', fadd z z')"

fun vsub :: "fl vec3 \<Rightarrow> fl vec3 \<Rightarrow> fl vec3" where
  "vsub (x, y, z) (x', y', z') = (fsub x x', fsub y y', fsub z z')"

fun vscale :: "fl vec3 \<Rightarrow> fl \<Rightarrow> fl vec3" where
  "vscale (x, y, z) s = (fmul x s, fmul y s, fmul z s)"

fun covdot :: "fl vec3 \<Rightarrow> fl vec3 \<Rightarrow> fl" where
  "covdot (x, y, z) (x', y', z') = fadd (fadd (fmul x x') (fmul y y')) (fmul z z')"

definition covlength2 :: "fl vec3 \<Rightarrow> fl" where
  "covlength2 v = covdot v v"

text \<open>
  \<open>glm::normalize\<close> multiplies the vector by the inverse square root of its squared
  length.
\<close>

definition covnormalize :: "fl vec3 \<Rightarrow> fl vec3" where
  "covnormalize v = vscale v (fdiv (Fin 1) (fsqrt (covdot v v)))"

section \<open>The NDT voxel kernel (CovarianceVoxel.h)\<close>

text \<open>
  \<open>CovarianceVoxel\<close> holds the six entries of the packed lower triangular square root of
  the covariance, \<open>float trianglar_covariance[6]\<close>: a list of six values.
\<close>

type_synonym CovarianceVoxel = "fl list"

definition initialiseCovariance :: "CovarianceVoxel \<Rightarrow> fl \<Rightarrow> CovarianceVoxel" where
  "initialiseCovariance cov sensor_noise =
     (let s = fmul sensor_noise sensor_noise;
          cov = cov[0 := s, 2 := s, 5 := s]
      in cov[1 := Fin 0, 3 := Fin 0, 4 := Fin 0])"

text \<open>
  \<open>packedDot\<close>: the dot product of columns \<open>j\<close> and \<open>k\<close> of the packed 4 by 3 matrix
  \<open>A\<close> (nine entries).
\<close>

definition col_first_el :: "nat list" where
  "col_first_el = [0, 1, 3]"

definition packedDot :: "fl list \<Rightarrow> nat \<Rightarrow> nat \<Rightarrow> fl" where
  "packedDot A j k =
     (let indj = col_first_el ! j;
          indk = col_first_el ! k;
          m = (if j \<le> k then j else k);
          d = fmul (A ! (6 + k)) (A ! (6 + j))
      in fold (\<lambda>i d. fadd d (fmul (A ! (indj + i)) (A ! (indk + i)))) [0 ..< m + 1] d)"

text \<open>
  \<open>unpackCovariance\<close>.  The count is converted to \<open>double\<close> before one is added, so the
  sum does not wrap.
\<close>

definition unpackCovariance :: "CovarianceVoxel \<Rightarrow> 32 word \<Rightarrow> fl vec3 \<Rightarrow> fl list" where
  "unpackCovariance cov point_count sample_to_mean =
     (let pc = Fin (real (unat point_count));
          one_on_num_pt_plus_one = fdiv (Fin 1) (fadd pc (Fin 1));
          sc_1 = (if point_count \<noteq> 0 then fsqrt (fmul pc one_on_num_pt_plus_one) else Fin 1);
          sc_2 = fmul one_on_num_pt_plus_one (fsqrt pc)
      in map (\<lambda>i. fmul sc_1 (cov ! i)) [0 ..< 6]
         @ [fmul sc_2 (vget sample_to_mean 0), fmul sc_2 (vget sample_to_mean 1),
            fmul sc_2 (vget sample_to_mean 2)])"

text \<open>\<open>solveTriangular\<close>: forward substitution, \<open>M x = y\<close> for the lower triangular \<open>M\<close>.\<close>

fun solveTriangular :: "CovarianceVoxel \<Rightarrow> fl vec3 \<Rightarrow> fl vec3" where
  "solveTriangular cov (yx, yy, yz) =
     (let xx = fdiv yx (cov ! 0);
          d = fsub yy (fmul (cov ! (1 + 0)) xx);
          xy = fdiv d (cov ! (1 + 1));
          d = fsub yz (fmul (cov ! (3 + 0)) xx);
          d = fsub d (fmul (cov ! (3 + 1)) xy);
          xz = fdiv d (cov ! (3 + 2))
      in (xx, xy, xz))"

text \<open>
  The covariance update loop of \<open>calculateHitWithCovariance\<close> (a modified Gram-Schmidt
  decomposition of the unpacked matrix).  The state is the packed covariance being written and
  the unpacked matrix being reduced.  The three nested \<open>for\<close> loops run over fixed index
  ranges and are folds.
\<close>

definition gs_inner :: "nat \<Rightarrow> nat \<Rightarrow> nat \<Rightarrow> fl \<Rightarrow> fl list \<Rightarrow> fl list" where
  "gs_inner k indj indk c A =
     fold (\<lambda>l A. A[indj + l := fsub (A ! (indj + l)) (fmul c (A ! (indk + l)))]) [0 ..< k + 1] A"

definition gs_column :: "nat \<Rightarrow> nat \<Rightarrow> fl \<Rightarrow> nat \<Rightarrow> CovarianceVoxel \<times> fl list
    \<Rightarrow> CovarianceVoxel \<times> fl list" where
  "gs_column k indk aki j st =
     (let cov = fst st; A = snd st;
          indj = (j * (j + 1)) div 2;
          indkj = indj + k;
          c = fmul (packedDot A j k) aki;
          cov = cov[indkj := c];
          c = fmul c aki;
          A = A[j + 6 := fsub (A ! (j + 6)) (fmul c (A ! (k + 6)))];
          A = gs_inner k indj indk c A
      in (cov, A))"

definition gs_step :: "nat \<Rightarrow> CovarianceVoxel \<times> fl list \<Rightarrow> CovarianceVoxel \<times> fl list" where
  "gs_step k st =
     (let cov = fst st; A = snd st;
          ind1 = (k * (k + 3)) div 2;
          indk = ind1 - k;
          ak = fsqrt (packedDot A k k);
          cov = cov[ind1 := ak]
      in if fgt ak (Fin 0)
         then (let aki = fdiv (Fin 1) ak
               in fold (gs_column k indk aki) [k + 1 ..< 3] (cov, A))
         else (cov, A))"

definition updateCovariance :: "CovarianceVoxel \<Rightarrow> fl list \<Rightarrow> CovarianceVoxel" where
  "updateCovariance cov unpacked_covariance = fst (fold gs_step [0 ..< 3] (cov, unpacked_covariance))"

text \<open>
  \<open>calculateHitWithCovariance\<close>.  The result is the updated covariance, the updated
  occupancy value and the returned flag.
\<close>

definition calculateHitWithCovariance ::
  "CovarianceVoxel \<Rightarrow> fl \<Rightarrow> fl vec3 \<Rightarrow> fl vec3 \<Rightarrow> 32 word \<Rightarrow> fl \<Rightarrow> fl \<Rightarrow> fl \<Rightarrow> fl \<Rightarrow> 32 word
     \<Rightarrow> CovarianceVoxel \<times> fl \<times> bool" where
  "calculateHitWithCovariance cov_voxel voxel_value sample voxel_mean point_count hit_value
       uninitialised_value sensor_noise reinitialise_threshold reinitialise_sample_count =
     (let initial_value = voxel_value;
          was_uncertain = feq initial_value uninitialised_value;
          initialised_covariance =
            (was_uncertain \<or> point_count = 0 \<or>
             flt initial_value reinitialise_threshold \<and> reinitialise_sample_count \<le> point_count);
          cov_voxel = (if initialised_covariance
                       then initialiseCovariance cov_voxel sensor_noise else cov_voxel);
          voxel_value = (if initialised_covariance
                         then hit_value else fadd voxel_value hit_value);
          sample_to_mean = vsub sample voxel_mean;
          unpacked_covariance = unpackCovariance cov_voxel point_count sample_to_mean
      in (updateCovariance cov_voxel unpacked_covariance, voxel_value, initialised_covariance))"

text \<open>
  \<open>calculateMissNdt\<close>.  The block of the function that handles an occupied voxel with enough
  samples computes the local variables \<open>probability_update\<close> and
  \<open>voxel_maximum_likelyhood\<close>; it is the function \<open>ndt_probability_update\<close> here, so that
  statements can name the probability.  \<open>calculateMissNdt\<close> returns the updated occupancy
  value and the returned point.
\<close>

definition ndt_probability_update ::
  "CovarianceVoxel \<Rightarrow> fl vec3 \<Rightarrow> fl vec3 \<Rightarrow> fl vec3 \<Rightarrow> fl \<Rightarrow> fl \<Rightarrow> fl \<times> fl vec3" where
  "ndt_probability_update cov_voxel sensor sample voxel_mean miss_value sensor_noise =
     (let sensor_to_sample = vsub sample sensor;
          sensor_ray = covnormalize sensor_to_sample;
          sensor_to_mean = vsub sensor voxel_mean;
          a = solveTriangular cov_voxel sensor_ray;
          b_norm = solveTriangular cov_voxel sensor_to_mean;
          t = fdiv (fneg (covdot a b_norm)) (covdot a a);
          voxel_maximum_likelyhood = vadd (vscale sensor_ray t) sensor;
          p_x_ml_given_voxel =
            fexp (fmul (Fin (- 0.5))
              (covlength2 (solveTriangular cov_voxel (vsub voxel_maximum_likelyhood voxel_mean))));
          sensor_noise_variance = fmul sensor_noise sensor_noise;
          p_x_ml_given_sample =
            fexp (fdiv (fmul (Fin (- 0.5)) (covlength2 (vsub voxel_maximum_likelyhood sample)))
                       sensor_noise_variance);
          scaling_factor = fsub (Fin 1) (fdiv (Fin 1) (fadd (Fin 1) (fexp miss_value)));
          probability_update =
            fsub (Fin 0.5)
              (fmul (fmul scaling_factor p_x_ml_given_voxel) (fsub (Fin 1) p_x_ml_given_sample))
      in (probability_update, voxel_maximum_likelyhood))"

definition calculateMissNdt ::
  "CovarianceVoxel \<Rightarrow> fl \<Rightarrow> fl vec3 \<Rightarrow> fl vec3 \<Rightarrow> fl vec3 \<Rightarrow> 32 word \<Rightarrow> fl \<Rightarrow> fl \<Rightarrow> fl \<Rightarrow> 32 word
     \<Rightarrow> fl \<times> fl vec3" where
  "calculateMissNdt cov_voxel voxel_value sensor sample voxel_mean point_count
       uninitialised_value miss_value sensor_noise sample_threshold =
     (if feq voxel_value uninitialised_value then (miss_value, voxel_mean)
      else if point_count < sample_threshold then (fadd voxel_value miss_value, voxel_mean)
      else
        let pm = ndt_probability_update cov_voxel sensor sample voxel_mean miss_value sensor_noise;
            probability_update = fst pm;
            voxel_maximum_likelyhood = snd pm
        in (if feq probability_update probability_update
            then fadd voxel_value (flog (fdiv probability_update (fsub (Fin 1) probability_update)))
            else voxel_value,
            voxel_maximum_likelyhood))"

text \<open>
  \<open>updateIncidentNormalV3\<close> (VoxelIncidentCompute.h).  The count is an \<open>unsigned\<close>:
  \<open>point_count + 1\<close> wraps at 32 bits before the conversion to \<open>float\<close>.
\<close>

definition normal_epsilon :: fl where
  "normal_epsilon = Fin (1 / 1000000)"

definition updateIncidentNormalV3 :: "fl vec3 \<Rightarrow> fl vec3 \<Rightarrow> 32 word \<Rightarrow> fl vec3" where
  "updateIncidentNormalV3 normal incident_ray point_count =
     (let point_count =
            (if (fne (vget normal 0) (Fin 0) \<or> fne (vget normal 1) (Fin 0)
                   \<or> fne (vget normal 2) (Fin 0)) \<and> point_count \<noteq> 0
             then point_count else 0);
          one_on_count_plus_one = fdiv (Fin 1) (Fin (real (unat (point_count + 1))));
          normal_length_2 =
            fadd (fadd (fmul (vget incident_ray 0) (vget incident_ray 0))
                       (fmul (vget incident_ray 1) (vget incident_ray 1)))
                 (fmul (vget incident_ray 2) (vget incident_ray 2));
          incident_ray =
            vscale incident_ray
              (if fgt normal_length_2 normal_epsilon
               then fdiv (Fin 1) (fsqrt normal_length_2) else Fin 0);
          nx = fadd (vget normal 0)
                 (fmul (fsub (vget incident_ray 0) (vget normal 0)) one_on_count_plus_one);
          ny = fadd (vget normal 1)
                 (fmul (fsub (vget incident_ray 1) (vget normal 1)) one_on_count_plus_one);
          nz = fadd (vget normal 2)
                 (fmul (fsub (vget incident_ray 2) (vget normal 2)) one_on_count_plus_one);
          normal_length_2 = fadd (fadd (fmul nx nx) (fmul ny ny)) (fmul nz nz)
      in vscale (nx, ny, nz)
           (if fgt normal_length_2 normal_epsilon
            then fdiv (Fin 1) (fsqrt normal_length_2) else Fin 0))"


section \<open>Statements about the numeric kernels\<close>

definition finite_vec :: "fl vec3 \<Rightarrow> bool" where
  "finite_vec v \<longleftrightarrow> is_finite (vget v 0) \<and> is_finite (vget v 1) \<and> is_finite (vget v 2)"

text \<open>A returned direction is the zero vector or has squared length one.\<close>

definition zero_or_unit :: "fl vec3 \<Rightarrow> bool" where
  "zero_or_unit v =
     (case v of
        (Fin x, Fin y, Fin z) \<Rightarrow> (x = 0 \<and> y = 0 \<and> z = 0) \<or> x * x + y * y + z * z = 1
      | _ \<Rightarrow> False)"

text \<open>
  The three triggers of the covariance reset as the specification lists them: no samples
  yet, an unobserved voxel, or an occupancy value below the threshold with enough samples.
\<close>

definition reset_trigger :: "fl \<Rightarrow> 32 word \<Rightarrow> fl \<Rightarrow> fl \<Rightarrow> 32 word \<Rightarrow> bool" where
  "reset_trigger voxel_value point_count uninitialised_value reinitialise_threshold
       reinitialise_sample_count \<longleftrightarrow>
     point_count = 0 \<or> feq voxel_value uninitialised_value \<or>
     (flt voxel_value reinitialise_threshold \<and> reinitialise_sample_count \<le> point_count)"

text \<open>The packed form of the identity matrix scaled by \<open>s\<close>.\<close>

definition scaled_identity :: "fl \<Rightarrow> CovarianceVoxel" where
  "scaled_identity s = [s, Fin 0, s, Fin 0, Fin 0, s]"

text \<open>
  The NDT miss update in the words of the specification, on real numbers.  \<open>lower_mul\<close> is
  the product of the packed lower triangular matrix \<open>C\<close> with a vector and
  \<open>lower_solve\<close> the solution of \<open>C x = y\<close>, that is \<open>C\<^sup>-\<^sup>1 y\<close>.
\<close>

fun rdot :: "real vec3 \<Rightarrow> real vec3 \<Rightarrow> real" where
  "rdot (x, y, z) (x', y', z') = x * x' + y * y' + z * z'"

fun rsub :: "real vec3 \<Rightarrow> real vec3 \<Rightarrow> real vec3" where
  "rsub (x, y, z) (x', y', z') = (x - x', y - y', z - z')"

fun radd :: "real vec3 \<Rightarrow> real vec3 \<Rightarrow> real vec3" where
  "radd (x, y, z) (x', y', z') = (x + x', y + y', z + z')"

fun rscale :: "real \<Rightarrow> real vec3 \<Rightarrow> real vec3" where
  "rscale s (x, y, z) = (x * s, y * s, z * s)"

fun fvec :: "real vec3 \<Rightarrow> fl vec3" where
  "fvec (x, y, z) = (Fin x, Fin y, Fin z)"

fun lower_mul :: "real list \<Rightarrow> real vec3 \<Rightarrow> real vec3" where
  "lower_mul c (x, y, z) = (c ! 0 * x, c ! 1 * x + c ! 2 * y, c ! 3 * x + c ! 4 * y + c ! 5 * z)"

fun lower_solve :: "real list \<Rightarrow> real vec3 \<Rightarrow> real vec3" where
  "lower_solve c (y0, y1, y2) =
     (let x0 = y0 / c ! 0;
          x1 = (y1 - c ! 1 * x0) / c ! 2;
          x2 = (y2 - c ! 3 * x0 - c ! 4 * x1) / c ! 5
      in (x0, x1, x2))"

text \<open>The unit ray \<open>\<ell>\<close> from the sensor to the sample.\<close>

definition ndt_ray :: "real vec3 \<Rightarrow> real vec3 \<Rightarrow> real vec3" where
  "ndt_ray sensor sample =
     (let d = rsub sample sensor in rscale (1 / sqrt (rdot d d)) d)"

text \<open>
  The maximum likelihood point \<open>x\<^sub>M\<^sub>L = sensor + t \<cdot> \<ell>\<close> with \<open>t = - (a \<cdot> b) / (a \<cdot> a)\<close>,
  \<open>a = C\<^sup>-\<^sup>1 \<ell>\<close> and \<open>b = C\<^sup>-\<^sup>1 (sensor - \<mu>)\<close>.
\<close>

definition ndt_x_ml :: "real list \<Rightarrow> real vec3 \<Rightarrow> real vec3 \<Rightarrow> real vec3 \<Rightarrow> real vec3" where
  "ndt_x_ml c sensor sample mean =
     (let l = ndt_ray sensor sample;
          a = lower_solve c l;
          b = lower_solve c (rsub sensor mean);
          t = - (rdot a b) / (rdot a a)
      in radd (rscale t l) sensor)"

text \<open>
  \<open>\<Delta>p = 0.5 - scale \<cdot> p\<^sub>1 \<cdot> (1 - p\<^sub>2)\<close> with \<open>scale = 1 - 1 / (1 + exp miss_value)\<close>,
  \<open>p\<^sub>1 = exp (- \<onehalf> \<parallel>C\<^sup>-\<^sup>1 (x\<^sub>M\<^sub>L - \<mu>)\<parallel>\<^sup>2)\<close> and \<open>p\<^sub>2 = exp (- \<onehalf> \<parallel>x\<^sub>M\<^sub>L - z\<parallel>\<^sup>2 / \<sigma>\<^sup>2)\<close>.
\<close>

definition ndt_delta_p ::
  "real list \<Rightarrow> real vec3 \<Rightarrow> real vec3 \<Rightarrow> real vec3 \<Rightarrow> real \<Rightarrow> real \<Rightarrow> real" where
  "ndt_delta_p c sensor sample mean miss_value sigma =
     (let x_ml = ndt_x_ml c sensor sample mean;
          u = lower_solve c (rsub x_ml mean);
          p1 = exp (- (1 / 2) * rdot u u);
          w = rsub x_ml sample;
          p2 = exp (- (1 / 2) * rdot w w / (sigma * sigma));
          scale = 1 - 1 / (1 + exp miss_value)
      in 1 / 2 - scale * p1 * (1 - p2))"

section \<open>The miss update in rounded arithmetic\<close>

text \<open>
  On the host \<open>covreal\<close> is \<open>double\<close> and \<open>covvec3\<close> is \<open>glm::dvec3\<close>.  Where the rounding
  of intermediate results decides what \<open>calculateMissNdt\<close> writes, the function is followed
  with every operation rounded to the format of its C type, IEEE 754 round to nearest with
  ties to even: a non-zero \<open>x\<close> of binary exponent \<open>\<lfloor>log\<^sub>2 \<bar>x\<bar>\<rfloor>\<close>, taken not below the least
  normal exponent \<open>2 - emax\<close>, is rounded to a multiple of the unit in the last of its \<open>p\<close>
  digits, and a rounded magnitude of \<open>2\<^sup>e\<^sup>m\<^sup>a\<^sup>x\<close> or more is infinite.  \<open>double\<close> has
  \<open>p = 53\<close> and \<open>emax = 1024\<close>, \<open>float\<close> has \<open>p = 24\<close> and \<open>emax = 128\<close>.  The sign of zero
  is not modelled, and the library functions \<open>sqrt\<close>, \<open>exp\<close> and \<open>log\<close> are taken as rounded
  to nearest like the arithmetic.
\<close>

definition round_half_even :: "real \<Rightarrow> int" where
  "round_half_even x =
     (let f = \<lfloor>x\<rfloor>; r = x - of_int f
      in if r < 1 / 2 then f else if 1 / 2 < r then f + 1 else if even f then f else f + 1)"

definition ieee_round :: "int \<Rightarrow> int \<Rightarrow> real \<Rightarrow> fl" where
  "ieee_round p emax x =
     (if x = 0 then Fin 0
      else
        let e = max \<lfloor>log 2 \<bar>x\<bar>\<rfloor> (2 - emax) - (p - 1);
            y = of_int (round_half_even (x / 2 powr of_int e)) * 2 powr of_int e
        in if 2 powr of_int emax \<le> \<bar>y\<bar> then (if 0 < x then PInf else NInf) else Fin y)"

definition binary64 :: "fl \<Rightarrow> fl" where
  "binary64 x = (case x of Fin a \<Rightarrow> ieee_round 53 1024 a | _ \<Rightarrow> x)"

definition binary32 :: "fl \<Rightarrow> fl" where
  "binary32 x = (case x of Fin a \<Rightarrow> ieee_round 24 128 a | _ \<Rightarrow> x)"

text \<open>The operations on \<open>double\<close>, and the two operations on \<open>float\<close> the function has.\<close>

definition add64 :: "fl \<Rightarrow> fl \<Rightarrow> fl" where
  "add64 x y = binary64 (fadd x y)"

definition sub64 :: "fl \<Rightarrow> fl \<Rightarrow> fl" where
  "sub64 x y = binary64 (fsub x y)"

definition mul64 :: "fl \<Rightarrow> fl \<Rightarrow> fl" where
  "mul64 x y = binary64 (fmul x y)"

definition div64 :: "fl \<Rightarrow> fl \<Rightarrow> fl" where
  "div64 x y = binary64 (fdiv x y)"

definition sqrt64 :: "fl \<Rightarrow> fl" where
  "sqrt64 x = binary64 (fsqrt x)"

definition exp64 :: "fl \<Rightarrow> fl" where
  "exp64 x = binary64 (fexp x)"

definition log64 :: "fl \<Rightarrow> fl" where
  "log64 x = binary64 (flog x)"

definition add32 :: "fl \<Rightarrow> fl \<Rightarrow> fl" where
  "add32 x y = binary32 (fadd x y)"

definition mul32 :: "fl \<Rightarrow> fl \<Rightarrow> fl" where
  "mul32 x y = binary32 (fmul x y)"

text \<open>The vector operations of \<open>glm\<close> on \<open>dvec3\<close>.\<close>

fun vadd64 :: "fl vec3 \<Rightarrow> fl vec3 \<Rightarrow> fl vec3" where
  "vadd64 (x, y, z) (x', y', z') = (add64 x x', add64 y y', add64 z z')"

fun vsub64 :: "fl vec3 \<Rightarrow> fl vec3 \<Rightarrow> fl vec3" where
  "vsub64 (x, y, z) (x', y', z') = (sub64 x x', sub64 y y', sub64 z z')"

fun vscale64 :: "fl vec3 \<Rightarrow> fl \<Rightarrow> fl vec3" where
  "vscale64 (x, y, z) s = (mul64 x s, mul64 y s, mul64 z s)"

fun covdot64 :: "fl vec3 \<Rightarrow> fl vec3 \<Rightarrow> fl" where
  "covdot64 (x, y, z) (x', y', z') = add64 (add64 (mul64 x x') (mul64 y y')) (mul64 z z')"

definition covlength2_64 :: "fl vec3 \<Rightarrow> fl" where
  "covlength2_64 v = covdot64 v v"

definition covnormalize64 :: "fl vec3 \<Rightarrow> fl vec3" where
  "covnormalize64 v = vscale64 v (div64 (Fin 1) (sqrt64 (covdot64 v v)))"

text \<open>
  \<open>solveTriangular\<close>: the entries of \<open>float trianglar_covariance[6]\<close> are converted to
  \<open>double\<close>, which is exact.
\<close>

fun solveTriangular64 :: "CovarianceVoxel \<Rightarrow> fl vec3 \<Rightarrow> fl vec3" where
  "solveTriangular64 cov (yx, yy, yz) =
     (let xx = div64 yx (cov ! 0);
          d = sub64 yy (mul64 (cov ! (1 + 0)) xx);
          xy = div64 d (cov ! (1 + 1));
          d = sub64 yz (mul64 (cov ! (3 + 0)) xx);
          d = sub64 d (mul64 (cov ! (3 + 1)) xy);
          xz = div64 d (cov ! (3 + 2))
      in (xx, xy, xz))"

text \<open>
  \<open>calculateMissNdt\<close>.  \<open>sensor_noise * sensor_noise\<close> is a product of two \<open>float\<close>; the
  argument of \<open>exp(miss_value)\<close> is converted to \<open>double\<close>; the logarithm is narrowed to
  \<open>float\<close> and added to the \<open>float\<close> occupancy value.
\<close>

definition ndt_probability_update64 ::
  "CovarianceVoxel \<Rightarrow> fl vec3 \<Rightarrow> fl vec3 \<Rightarrow> fl vec3 \<Rightarrow> fl \<Rightarrow> fl \<Rightarrow> fl \<times> fl vec3" where
  "ndt_probability_update64 cov_voxel sensor sample voxel_mean miss_value sensor_noise =
     (let sensor_to_sample = vsub64 sample sensor;
          sensor_ray = covnormalize64 sensor_to_sample;
          sensor_to_mean = vsub64 sensor voxel_mean;
          a = solveTriangular64 cov_voxel sensor_ray;
          b_norm = solveTriangular64 cov_voxel sensor_to_mean;
          t = div64 (fneg (covdot64 a b_norm)) (covdot64 a a);
          voxel_maximum_likelyhood = vadd64 (vscale64 sensor_ray t) sensor;
          p_x_ml_given_voxel =
            exp64 (mul64 (Fin (- 0.5))
              (covlength2_64
                 (solveTriangular64 cov_voxel (vsub64 voxel_maximum_likelyhood voxel_mean))));
          sensor_noise_variance = mul32 sensor_noise sensor_noise;
          p_x_ml_given_sample =
            exp64 (div64 (mul64 (Fin (- 0.5)) (covlength2_64 (vsub64 voxel_maximum_likelyhood sample)))
                         sensor_noise_variance);
          scaling_factor = sub64 (Fin 1) (div64 (Fin 1) (add64 (Fin 1) (exp64 miss_value)));
          probability_update =
            sub64 (Fin 0.5)
              (mul64 (mul64 scaling_factor p_x_ml_given_voxel) (sub64 (Fin 1) p_x_ml_given_sample))
      in (probability_update, voxel_maximum_likelyhood))"

definition calculateMissNdt64 ::
  "CovarianceVoxel \<Rightarrow> fl \<Rightarrow> fl vec3 \<Rightarrow> fl vec3 \<Rightarrow> fl vec3 \<Rightarrow> 32 word \<Rightarrow> fl \<Rightarrow> fl \<Rightarrow> fl \<Rightarrow> 32 word
     \<Rightarrow> fl \<times> fl vec3" where
  "calculateMissNdt64 cov_voxel voxel_value sensor sample voxel_mean point_count
       uninitialised_value miss_value sensor_noise sample_threshold =
     (if feq voxel_value uninitialised_value then (miss_value, voxel_mean)
      else if point_count < sample_threshold then (add32 voxel_value miss_value, voxel_mean)
      else
        let pm = ndt_probability_update64 cov_voxel sensor sample voxel_mean miss_value sensor_noise;
            probability_update = fst pm;
            voxel_maximum_likelyhood = snd pm
        in (if feq probability_update probability_update
            then add32 voxel_value
                   (binary32 (log64 (div64 probability_update (sub64 (Fin 1) probability_update))))
            else voxel_value,
            voxel_maximum_likelyhood))"
section \<open>Loading a version 0 chunk (MapSerialiseV0.cpp)\<close>

text \<open>
  The input stream is the list of the bytes still to be read.  \<open>InputStream::read\<close> and
  the helper \<open>read<T>\<close> are not part of the sources at hand; they are taken to behave as
  their use shows: a read of \<open>n\<close> bytes consumes up to \<open>n\<close> bytes and reports how many
  it got, and \<open>read<T>\<close> stores a value only when all bytes of the value arrived.  A
  \<open>float\<close> or \<open>double\<close> is copied, never computed with, and is represented by its bit
  pattern (little endian).
\<close>

type_synonym byte = "8 word"

definition le_word :: "byte list \<Rightarrow> 'a::len word" where
  "le_word bs = word_rcat (rev bs)"

text \<open>The \<open>float\<close> at index \<open>i\<close> of a block of bytes.\<close>

definition float_at :: "byte list \<Rightarrow> nat \<Rightarrow> 32 word" where
  "float_at bs i = le_word (take 4 (drop (4 * i) bs))"

datatype serialise_code = kSeOk | kSeFileReadFailure | kSeValueOverflow

text \<open>
  The parts of \<open>MapChunk\<close> that \<open>loadChunk\<close> writes: the region coordinate and centre, the
  touched time, and the voxel blocks of the occupancy layer, the clearance layer and, when
  the layout has it, the legacy layer \<open>coarseClearance\<close>.
\<close>

record MapChunk =
  region_coord :: "16 word vec3"
  region_centre :: "64 word vec3"
  touched_time :: "64 word"
  occupancy_block :: "32 word list"
  clearance_block :: "32 word list"
  coarse_clearance_block :: "byte list option"

text \<open>
  \<open>ok = read<T>(stream, field) && ok\<close>: the read is attempted whatever \<open>ok\<close> is.  The
  state is the flag, the chunk and the stream.
\<close>

definition read_field ::
  "nat \<Rightarrow> (byte list \<Rightarrow> MapChunk \<Rightarrow> MapChunk) \<Rightarrow> bool \<times> MapChunk \<times> byte list
     \<Rightarrow> bool \<times> MapChunk \<times> byte list" where
  "read_field n store st =
     (case st of (ok, chunk, stream) \<Rightarrow>
        let bs = take n stream
        in (length bs = n \<and> ok, if length bs = n then store bs chunk else chunk, drop n stream))"

text \<open>
  The seven header fields in the order they are read.  The region coordinates are stored as
  \<open>int32_t\<close> and narrowed to the 16-bit coordinate of the region.
\<close>

definition read_chunk_header :: "bool \<times> MapChunk \<times> byte list \<Rightarrow> bool \<times> MapChunk \<times> byte list" where
  "read_chunk_header st =
     (let st = read_field 4
                 (\<lambda>bs c. c\<lparr>region_coord := vset (region_coord c) 0 (ucast (le_word bs :: 32 word))\<rparr>) st;
          st = read_field 4
                 (\<lambda>bs c. c\<lparr>region_coord := vset (region_coord c) 1 (ucast (le_word bs :: 32 word))\<rparr>) st;
          st = read_field 4
                 (\<lambda>bs c. c\<lparr>region_coord := vset (region_coord c) 2 (ucast (le_word bs :: 32 word))\<rparr>) st;
          st = read_field 8 (\<lambda>bs c. c\<lparr>region_centre := vset (region_centre c) 0 (le_word bs)\<rparr>) st;
          st = read_field 8 (\<lambda>bs c. c\<lparr>region_centre := vset (region_centre c) 1 (le_word bs)\<rparr>) st;
          st = read_field 8 (\<lambda>bs c. c\<lparr>region_centre := vset (region_centre c) 2 (le_word bs)\<rparr>) st
      in read_field 8 (\<lambda>bs c. c\<lparr>touched_time := le_word bs\<rparr>) st)"

text \<open>
  The number of voxels of a region: the product of the three 8-bit dimensions, computed in
  \<open>int\<close> and converted to \<open>unsigned\<close>.
\<close>

definition region_node_count :: "8 word vec3 \<Rightarrow> 32 word" where
  "region_node_count d = of_nat (unat (vget d 0) * unat (vget d 1) * unat (vget d 2))"

text \<open>
  The guard on the byte count: \<open>node_byte_count = 2 * sizeof(float) * node_count\<close> is a
  \<open>size_t\<close> (64 bits) and is compared with its own narrowing to \<open>unsigned\<close>.
\<close>

definition node_byte_count :: "32 word \<Rightarrow> 64 word" where
  "node_byte_count node_count = 2 * 4 * ucast node_count"

definition byte_count_overflows :: "32 word \<Rightarrow> bool" where
  "byte_count_overflows node_count \<longleftrightarrow>
     node_byte_count node_count \<noteq> ucast (ucast (node_byte_count node_count) :: 32 word)"

text \<open>
  The loop that pulls the interleaved values apart.  \<open>VoxelBuffer::writeVoxel\<close> is not part
  of the sources at hand: it stores the value at the index of the voxel.
\<close>

definition deinterleave :: "byte list \<Rightarrow> nat \<Rightarrow> MapChunk \<Rightarrow> MapChunk" where
  "deinterleave node_data n chunk =
     fold (\<lambda>i c. c\<lparr>occupancy_block := (occupancy_block c)[i := float_at node_data (2 * i + 0)],
                   clearance_block := (clearance_block c)[i := float_at node_data (2 * i + 1)]\<rparr>)
          [0 ..< n] chunk"

text \<open>
  \<open>v0::loadChunk\<close>.  The buffer \<open>node_data\<close> starts as zeros and the read overwrites its
  first bytes.  The result is the returned code, the chunk and the rest of the stream.
\<close>

definition loadChunk ::
  "byte list \<Rightarrow> MapChunk \<Rightarrow> 8 word vec3 \<Rightarrow> serialise_code \<times> MapChunk \<times> byte list" where
  "loadChunk stream chunk region_voxel_dimensions =
     (let chunk = (case coarse_clearance_block chunk of
                     None \<Rightarrow> chunk
                   | Some mem \<Rightarrow> chunk\<lparr>coarse_clearance_block := Some (replicate (length mem) 0)\<rparr>);
          (ok, chunk, stream) = read_chunk_header (True, chunk, stream);
          node_count = region_node_count region_voxel_dimensions
      in if byte_count_overflows node_count then (kSeValueOverflow, chunk, stream)
         else if ok then
           (let size = unat node_count * 2;
                wanted = unat (ucast (node_byte_count node_count) :: 32 word);
                got = take wanted stream;
                node_data = got @ replicate (4 * size - length got) 0;
                ok = (length got = unat (node_byte_count node_count) \<and> ok);
                chunk = deinterleave node_data (size div 2) chunk
            in (if ok then kSeOk else kSeFileReadFailure, chunk, drop wanted stream))
         else (kSeFileReadFailure, chunk, stream))"

text \<open>The number of bytes of the header of a chunk.\<close>

definition chunk_header_size :: nat where
  "chunk_header_size = 3 * 4 + 3 * 8 + 8"

text \<open>
  The state after reading \<open>k\<close> bytes of header fields from \<open>stream0\<close> into \<open>chunk0\<close>:
  the flag tells whether that many bytes were there, and the voxel blocks are untouched.
\<close>

definition header_inv :: "MapChunk \<Rightarrow> byte list \<Rightarrow> nat \<Rightarrow> bool \<times> MapChunk \<times> byte list \<Rightarrow> bool" where
  "header_inv chunk0 stream0 k st \<longleftrightarrow>
     (case st of (ok, chunk, stream) \<Rightarrow>
        (ok \<longleftrightarrow> k \<le> length stream0) \<and> stream = drop k stream0 \<and>
        occupancy_block chunk = occupancy_block chunk0 \<and>
        clearance_block chunk = clearance_block chunk0)"

text \<open>A chunk of a region of two voxels, and a block of two interleaved pairs of values.\<close>

definition example_chunk :: MapChunk where
  "example_chunk = \<lparr> region_coord = (0, 0, 0), region_centre = (0, 0, 0), touched_time = 0,
       occupancy_block = [0, 0], clearance_block = [0, 0], coarse_clearance_block = None \<rparr>"

definition example_block :: "byte list" where
  "example_block = [1, 2, 3, 4, 5, 6, 7, 8, 9, 10, 11, 12, 13, 14, 15, 16]"


section \<open>The heightmap engine (Heightmap.cpp)\<close>

text \<open>
  The source occupancy map as the heightmap code reads it: the voxel dimensions of a region,
  the chunks by region coordinate with their occupancy layer (a chunk may be absent), the
  occupancy threshold, and the value that marks an unobserved voxel
  (\<open>unobservedOccupancyValue()\<close>, a constant that is not part of the sources at hand and is a
  parameter here).  The height of a voxel along the up axis is \<open>dot(position, up)\<close>; the
  functions that give the position (\<open>voxelCentreGlobal\<close>, the voxel mean) are not part of the
  sources at hand, so the two heights, of the voxel centre and of the mean position, are
  parameters as well.
\<close>

datatype OccupancyType = kNull | kUnobserved | kFree | kOccupied

record SrcMap =
  region_voxel_dimensions :: "int vec3"
  chunks :: "16 word vec3 \<Rightarrow> (8 word vec3 \<Rightarrow> fl) option"
  occupancy_threshold :: fl
  unobserved_value :: fl
  centre_height :: "Key \<Rightarrow> real"
  position_height :: "Key \<Rightarrow> real"

text \<open>\<open>SrcVoxel::occupancyType\<close> for the voxel of a key.\<close>

definition occupancyType :: "SrcMap \<Rightarrow> Key \<Rightarrow> OccupancyType" where
  "occupancyType m key =
     (let value = (case chunks m (regionKey key) of
                     None \<Rightarrow> unobserved_value m
                   | Some layer \<Rightarrow> layer (localKey key));
          type = (if fge value (occupancy_threshold m) then kOccupied else kFree);
          type = (if fne value (unobserved_value m) then type else kUnobserved)
      in (case chunks m (regionKey key) of None \<Rightarrow> kNull | Some layer \<Rightarrow> type))"

text \<open>
  \<open>sourceVoxelHeight\<close>: the type of the voxel and its height, from the mean position for an
  occupied voxel and from the voxel centre otherwise.
\<close>

definition sourceVoxelHeight :: "SrcMap \<Rightarrow> Key \<Rightarrow> OccupancyType \<times> real" where
  "sourceVoxelHeight m key =
     (let voxel_type = occupancyType m key
      in (voxel_type,
          if voxel_type = kOccupied then position_height m key else centre_height m key))"

text \<open>The fields of \<open>HeightmapDetail\<close> that the column search reads.\<close>

record HeightmapDetail =
  up_axis_id :: int
  min_clearance :: real
  ceiling_height :: real
  generate_virtual_surface :: bool
  promote_virtual_below :: bool

text \<open>\<open>std::numeric_limits<double>::max()\<close>.\<close>

definition double_max :: real where
  "double_max = (2 - 1 / 2 ^ 52) * 2 ^ 1023"

text \<open>
  \<open>findGround\<close>.  The \<open>for\<close> loop walks the keys of the column upwards from the seed key
  while \<open>key.isBounded(...)\<close> holds, stepping with \<open>stepKey\<close>; neither function is part of
  the sources at hand, and the loop is modelled on the list of the keys it visits, in order.
  The state of the loop is the local variables of the function; the walk stops at the
  \<open>break\<close>.
\<close>

record ground_state =
  column_height :: real
  column_clearance_height :: real
  height :: real
  candidate_voxel_type :: OccupancyType
  last_voxel_type :: OccupancyType
  ground_key :: "Key option"

fun findGround_walk :: "SrcMap \<Rightarrow> HeightmapDetail \<Rightarrow> Key list \<Rightarrow> ground_state \<Rightarrow> ground_state" where
  "findGround_walk m imp [] st = st"
| "findGround_walk m imp (key # keys) st =
     (let voxel_type = fst (sourceVoxelHeight m key);
          st = st\<lparr>height := snd (sourceVoxelHeight m key)\<rparr>;
          last_is_unobserved = (last_voxel_type st = kUnobserved \<or> last_voxel_type st = kNull)
      in if voxel_type = kOccupied \<or>
            generate_virtual_surface imp \<and> last_is_unobserved \<and> voxel_type = kFree \<and>
              candidate_voxel_type st = kNull
         then
           (if candidate_voxel_type st \<noteq> kNull
            then (let st = st\<lparr>column_clearance_height := height st\<rparr>
                  in if min_clearance imp \<le> column_clearance_height st - column_height st
                     then st
                     else findGround_walk m imp keys
                            (st\<lparr>column_height := height st, column_clearance_height := height st,
                                 ground_key := Some key, candidate_voxel_type := voxel_type,
                                 last_voxel_type := voxel_type\<rparr>))
            else findGround_walk m imp keys
                   (st\<lparr>ground_key := Some key, column_height := height st,
                        column_clearance_height := height st, candidate_voxel_type := voxel_type,
                        last_voxel_type := voxel_type\<rparr>))
         else findGround_walk m imp keys (st\<lparr>last_voxel_type := voxel_type\<rparr>))"

text \<open>
  The result is \<open>None\<close> for the null key; otherwise the ground key, \<open>height_out\<close> and
  \<open>clearance_out\<close>.
\<close>

definition findGround :: "SrcMap \<Rightarrow> HeightmapDetail \<Rightarrow> Key list \<Rightarrow> (Key option \<times> real \<times> real) option" where
  "findGround m imp column =
     (let st = findGround_walk m imp column
                 \<lparr> column_height = double_max, column_clearance_height = double_max, height = 0,
                   candidate_voxel_type = kNull, last_voxel_type = kNull, ground_key = None \<rparr>
      in if candidate_voxel_type st \<noteq> kNull
         then Some (ground_key st, height st, column_clearance_height st - column_height st)
         else None)"

text \<open>No voxel of a list of keys is occupied.\<close>

definition none_occupied :: "SrcMap \<Rightarrow> Key list \<Rightarrow> bool" where
  "none_occupied m ks \<longleftrightarrow> list_all (\<lambda>k. occupancyType m k \<noteq> kOccupied) ks"

text \<open>
  What the walk of \<open>findGround\<close> has established after the keys \<open>pre\<close>: either there is no
  candidate yet, or the candidate is a voxel of \<open>pre\<close> with no occupied voxel after it, and
  the two column heights are its height.
\<close>

definition ground_inv :: "SrcMap \<Rightarrow> Key list \<Rightarrow> ground_state \<Rightarrow> bool" where
  "ground_inv m pre st \<longleftrightarrow>
     (if candidate_voxel_type st = kNull then ground_key st = None
      else (\<exists>p1 g p2. pre = p1 @ [g] @ p2 \<and> ground_key st = Some g \<and> none_occupied m p2 \<and>
              column_height st = snd (sourceVoxelHeight m g) \<and>
              column_clearance_height st = column_height st))"

text \<open>
  The two ways a ground voxel \<open>g\<close> with clearance \<open>c\<close> sits in its column: no occupied voxel
  above it and no clearance measured, or a first occupied voxel \<open>v\<close> above it with the
  clearance being the gap between the two heights, which is at least the minimum clearance.
\<close>

definition ground_clear :: "SrcMap \<Rightarrow> Key list \<Rightarrow> Key \<Rightarrow> real \<Rightarrow> bool" where
  "ground_clear m column g c \<longleftrightarrow>
     (\<exists>p1 p2. column = p1 @ [g] @ p2 \<and> none_occupied m p2 \<and> c = 0)"

definition ground_gap :: "SrcMap \<Rightarrow> HeightmapDetail \<Rightarrow> Key list \<Rightarrow> Key \<Rightarrow> real \<Rightarrow> bool" where
  "ground_gap m imp column g c \<longleftrightarrow>
     (\<exists>p1 p2 v rest. column = p1 @ [g] @ p2 @ [v] @ rest \<and> none_occupied m p2 \<and>
        occupancyType m v = kOccupied \<and>
        c = snd (sourceVoxelHeight m v) - snd (sourceVoxelHeight m g) \<and> min_clearance imp \<le> c)"

text \<open>
  \<open>findNearestSupportingVoxel2\<close>: the search of a column, up or down from a key, for the
  first occupied voxel or the best virtual surface voxel.  The state of the loop is the local
  variables; a null key (\<open>Key(nullptr)\<close>) is \<open>None\<close>.  \<open>OccupancyMap::moveKeyAlongAxis\<close>
  forwards to the function of the map detail with the region dimensions of the map, and
  \<open>layerDim()\<close> of the occupancy layer is the region dimensions.
\<close>

record search_state =
  search_i :: int
  search_offset :: int
  current_key :: Key
  last_key :: "Key option"
  best_virtual :: "Key option"
  last_unknown :: bool
  last_free :: bool

text \<open>
  The loop.  Its result is \<open>None\<close> when the code has no defined result: the key step is
  undefined, or the step computed for an absent chunk is zero, in which case the loop of
  the code does not advance.  Otherwise it is the occupied key on which the loop returned,
  if any, and the state in which it ended.
\<close>

function findNearestSupportingVoxel2_loop ::
  "SrcMap \<Rightarrow> nat \<Rightarrow> int \<Rightarrow> int \<Rightarrow> bool \<Rightarrow> bool \<Rightarrow> search_state
     \<Rightarrow> (Key option \<times> search_state) option" where
  "findNearestSupportingVoxel2_loop m up_axis_index step vertical_range search_up
       allow_virtual_surface st =
     (if \<not> search_i st < vertical_range then Some (None, st)
      else
        let st = st\<lparr>search_offset := search_i st + (if search_up then 1 else 0)\<rparr>;
            chunk = chunks m (regionKey (current_key st));
            occupancy = (case chunk of None \<Rightarrow> unobserved_value m
                                     | Some layer \<Rightarrow> layer (localKey (current_key st)));
            occupied = (fge occupancy (occupancy_threshold m) \<and> fne occupancy (unobserved_value m));
            free = flt occupancy (occupancy_threshold m)
        in if occupied then Some (Some (current_key st), st)
           else
             let st = st\<lparr>best_virtual :=
                          (if allow_virtual_surface \<and> search_up \<and> free \<and> last_unknown st \<and>
                              best_virtual st = None
                           then Some (current_key st) else best_virtual st)\<rparr>;
                 st = st\<lparr>best_virtual :=
                          (if allow_virtual_surface \<and> \<not> search_up \<and> last_free st \<and> \<not> free
                           then last_key st else best_virtual st)\<rparr>;
                 st = st\<lparr>last_unknown := (\<not> occupied \<and> \<not> free), last_free := free,
                          last_key := Some (current_key st)\<rparr>;
                 local = uint (vget (localKey (current_key st)) up_axis_index);
                 next_step = (if chunk = None
                              then (if 0 < step
                                    then vget (region_voxel_dimensions m) up_axis_index - local
                                    else - (1 + local))
                              else step);
                 skipped = (if chunk = None then \<bar>next_step\<bar> - 1 else 0)
             in if skipped < 0 then None
                else (case moveKeyAlongAxis (current_key st) up_axis_index next_step
                             (region_voxel_dimensions m) of
                        None \<Rightarrow> None
                      | Some key \<Rightarrow>
                          findNearestSupportingVoxel2_loop m up_axis_index step vertical_range
                            search_up allow_virtual_surface
                            (st\<lparr>current_key := key, search_i := search_i st + skipped + 1\<rparr>)))"
  by pat_completeness auto
termination
  by (relation "measure (\<lambda>(m, a, s, vertical_range, u, v, st). nat (vertical_range - search_i st))")
    auto

declare findNearestSupportingVoxel2_loop.simps [simp del]

definition findNearestSupportingVoxel2 ::
  "SrcMap \<Rightarrow> Key \<Rightarrow> Key \<Rightarrow> nat \<Rightarrow> int \<Rightarrow> bool \<Rightarrow> bool \<Rightarrow> int
     \<Rightarrow> (Key option \<times> int \<times> bool) option" where
  "findNearestSupportingVoxel2 m from_key to_key up_axis_index step_limit search_up
       allow_virtual_surface offset =
     (let vertical_range = rangeBetween (region_voxel_dimensions m) from_key to_key up_axis_index + 1;
          step = (if 0 \<le> vertical_range then 1 else - 1);
          vertical_range = (if 0 \<le> vertical_range then vertical_range else - vertical_range);
          vertical_range = (if 0 < step_limit then min vertical_range step_limit else vertical_range)
      in case findNearestSupportingVoxel2_loop m up_axis_index step vertical_range search_up
                allow_virtual_surface
                \<lparr> search_i = 0, search_offset = offset, current_key = from_key, last_key = None,
                  best_virtual = None, last_unknown = True, last_free = True \<rparr> of
           None \<Rightarrow> None
         | Some (Some key, st) \<Rightarrow> Some (Some key, search_offset st, False)
         | Some (None, st) \<Rightarrow>
             (if best_virtual st = None
              then (if allow_virtual_surface \<and> \<not> search_up \<and> last_free st
                    then Some (last_key st, search_offset st, last_key st \<noteq> None)
                    else Some (None, - 1, False))
              else Some (best_virtual st, search_offset st, True)))"

text \<open>
  \<open>findNearestSupportingVoxel\<close>.  \<open>UpAxis\<close> is the integer of the enumeration: 0, 1, 2 for
  the axes and \<open>-1\<close>, \<open>-2\<close>, \<open>-3\<close> for their negations.  The result is the selected key, which
  may be null.
\<close>

definition findNearestSupportingVoxel ::
  "SrcMap \<Rightarrow> Key \<Rightarrow> int \<Rightarrow> Key \<Rightarrow> Key \<Rightarrow> int \<Rightarrow> int \<Rightarrow> bool \<Rightarrow> bool \<Rightarrow> Key option option" where
  "findNearestSupportingVoxel m seed_key up_axis min_key max_key voxel_ceiling
       clearance_voxel_count_permissive allow_virtual_surface promote_virtual_below' =
     (let up_axis_index = nat (if 0 \<le> up_axis then up_axis else - up_axis - 1);
          search_down_to = (if 0 \<le> up_axis then min_key else max_key);
          search_up_to = (if 0 \<le> up_axis then max_key else min_key)
      in case findNearestSupportingVoxel2 m seed_key search_down_to up_axis_index 0 False
                allow_virtual_surface (- 1) of
           None \<Rightarrow> None
         | Some (below_key, offset_below, virtual_below) \<Rightarrow>
        (case findNearestSupportingVoxel2 m seed_key search_up_to up_axis_index voxel_ceiling True
                allow_virtual_surface (- 1) of
           None \<Rightarrow> None
         | Some (above_key, offset_above, virtual_above) \<Rightarrow>
             (let have_candidate_below = (0 \<le> offset_below);
                  have_candidate_above = (0 \<le> offset_above);
                  virtual_below = (have_candidate_below \<and> virtual_below \<and> \<not> promote_virtual_below')
              in if have_candidate_below \<and> virtual_above \<and> \<not> virtual_below then Some below_key
                 else if have_candidate_above \<and> \<not> virtual_above \<and> virtual_below then Some above_key
                 else if have_candidate_below \<and> virtual_above \<and> virtual_below then Some below_key
                 else if have_candidate_below \<and>
                         (\<not> have_candidate_above \<or> offset_below \<le> offset_above \<or>
                          have_candidate_below \<and> have_candidate_above \<and> \<not> virtual_above \<and>
                            clearance_voxel_count_permissive \<le> offset_below + offset_above)
                      then Some below_key
                 else Some above_key)))"

text \<open>
  The selection between the candidate below and the candidate above in the words of the
  specification, for two candidates that each are real or virtual: a real candidate over a
  virtual one; of two virtual candidates the lower; of two real candidates the lower, unless
  the upper is within the permissive clearance of it, and then the one that took fewer
  search steps (the lower when both took as many).
\<close>

definition preferred_candidate ::
  "Key option \<Rightarrow> int \<Rightarrow> bool \<Rightarrow> Key option \<Rightarrow> int \<Rightarrow> bool \<Rightarrow> int \<Rightarrow> Key option" where
  "preferred_candidate below_key offset_below below_is_virtual above_key offset_above above_is_virtual
       clearance_voxel_count_permissive =
     (if below_is_virtual \<and> above_is_virtual then below_key
      else if above_is_virtual then below_key
      else if below_is_virtual then above_key
      else if clearance_voxel_count_permissive \<le> offset_below + offset_above then below_key
      else if offset_below \<le> offset_above then below_key
      else above_key)"

text \<open>
  A small source map for concrete runs: one chunk, at the region coordinate \<open>(0, 0, 0)\<close>,
  of \<open>4 \<times> 4 \<times> 4\<close> voxels; in every column the voxels at the heights 0 and 2 are occupied
  and the others are free; a voxel is as high as its local coordinate on the third axis.
\<close>

definition example_key :: "8 word \<Rightarrow> Key" where
  "example_key z = \<lparr> regionKey = (0, 0, 0), localKey = (0, 0, z) \<rparr>"

definition example_map :: SrcMap where
  "example_map =
     \<lparr> region_voxel_dimensions = (4, 4, 4),
       chunks = (\<lambda>r. if r = (0, 0, 0)
                       then Some (\<lambda>l. if vget l 2 = 0 \<or> vget l 2 = 2 then Fin 1 else Fin (- 1))
                       else None),
       occupancy_threshold = Fin 0,
       unobserved_value = PInf,
       centre_height = (\<lambda>k. real (unat (vget (localKey k) 2))),
       position_height = (\<lambda>k. real (unat (vget (localKey k) 2))) \<rparr>"

definition example_detail :: HeightmapDetail where
  "example_detail =
     \<lparr> up_axis_id = 2, min_clearance = 2, ceiling_height = 0, generate_virtual_surface = False,
       promote_virtual_below = False \<rparr>"

text \<open>
  A second map, for virtual surfaces: one chunk of \<open>8 \<times> 8 \<times> 8\<close> voxels at the region
  coordinate \<open>(0, 0, 0)\<close>; in every column the voxel at height 0 is unobserved, the voxel
  at height 4 is occupied and the others are free.
\<close>

definition virtual_map :: SrcMap where
  "virtual_map =
     \<lparr> region_voxel_dimensions = (8, 8, 8),
       chunks = (\<lambda>r. if r = (0, 0, 0)
                       then Some (\<lambda>l. if vget l 2 = 0 then PInf
                                       else if vget l 2 = 4 then Fin 1 else Fin (- 1))
                       else None),
       occupancy_threshold = Fin 0,
       unobserved_value = PInf,
       centre_height = (\<lambda>k. real (unat (vget (localKey k) 2))),
       position_height = (\<lambda>k. real (unat (vget (localKey k) 2))) \<rparr>"

text \<open>
  \<open>Heightmap::buildHeightmapT\<close>.  The occupancy layer of the heightmap being built maps a
  region coordinate to the values of its voxels, when the region exists.

  Modelled from the spec: the \<open>Voxel\<close> accessor that creates the chunk of the key it is set
  to is not part of the sources at hand.  The specification has regions created on first
  use with every layer cleared to its clear value, which for the occupancy layer is the
  value of an unobserved voxel.
\<close>

type_synonym OccupancyLayer = "16 word vec3 \<Rightarrow> (8 word vec3 \<Rightarrow> fl) option"

definition write_occupancy :: "fl \<Rightarrow> OccupancyLayer \<Rightarrow> Key \<Rightarrow> fl \<Rightarrow> OccupancyLayer" where
  "write_occupancy clear_value hm key v =
     hm(regionKey key \<mapsto>
          (case hm (regionKey key) of
             None \<Rightarrow> (\<lambda>l. clear_value)(localKey key := v)
           | Some layer \<Rightarrow> layer(localKey key := v)))"

text \<open>
  What the build reads besides the source map and the heightmap detail: the extents of the
  walk, the voxel counts derived from the ceiling and the minimum clearance
  (\<open>pointToRegionCoord\<close> is not part of the sources at hand), the keys \<open>findGround\<close> visits
  from a candidate key, and the heightmap key of a ground voxel (\<open>voxelKey\<close> of the
  heightmap on the voxel position, projected).
\<close>

record HeightmapBuild =
  src_map :: SrcMap
  detail :: HeightmapDetail
  min_ext_key :: Key
  max_ext_key :: Key
  ceiling_voxels :: int
  clearance_voxels :: int
  column_of :: "Key \<Rightarrow> Key list"
  heightmap_key :: "Key \<Rightarrow> Key"

definition kHeightmapSurfaceValue :: fl where
  "kHeightmapSurfaceValue = Fin 1"

definition kHeightmapVirtualSurfaceValue :: fl where
  "kHeightmapVirtualSurfaceValue = Fin (- 1)"

definition kHeightmapVacantValue :: fl where
  "kHeightmapVacantValue = Fin 0"

text \<open>
  The ground key of the column of a walk key: the candidate of
  \<open>findNearestSupportingVoxel\<close>, then \<open>findGround\<close> from it, or the walk key itself when
  there is no candidate.  The outer \<open>None\<close> is an undefined column search.
\<close>

definition column_ground :: "HeightmapBuild \<Rightarrow> Key \<Rightarrow> Key option option" where
  "column_ground b walk_key =
     (case findNearestSupportingVoxel (src_map b) walk_key (up_axis_id (detail b)) (min_ext_key b)
             (max_ext_key b) (ceiling_voxels b) (clearance_voxels b)
             (generate_virtual_surface (detail b)) (promote_virtual_below (detail b)) of
        None \<Rightarrow> None
      | Some candidate_key \<Rightarrow>
          Some (case candidate_key of
                  None \<Rightarrow> Some walk_key
                | Some c \<Rightarrow>
                    (case findGround (src_map b) (detail b) (column_of b c) of
                       None \<Rightarrow> None
                     | Some (ground, height_out, clearance_out) \<Rightarrow> ground)))"

text \<open>
  The body of the \<open>do\<close> loop for one walk key, on the occupancy layer of the heightmap and
  the count of populated voxels, and the loop over the keys the walker yields.
\<close>

definition visit_column ::
  "HeightmapBuild \<Rightarrow> Key \<Rightarrow> OccupancyLayer \<times> nat \<Rightarrow> (OccupancyLayer \<times> nat) option" where
  "visit_column b walk_key st =
     (case column_ground b walk_key of
        None \<Rightarrow> None
      | Some ground \<Rightarrow>
          Some (let voxel_type = (case ground of
                                    None \<Rightarrow> kNull
                                  | Some g \<Rightarrow> occupancyType (src_map b) g)
                in if voxel_type = kOccupied \<or> generate_virtual_surface (detail b)
                   then (let surface_value = (if voxel_type = kOccupied then kHeightmapSurfaceValue
                                              else kHeightmapVirtualSurfaceValue)
                         in if voxel_type \<noteq> kUnobserved \<and> voxel_type \<noteq> kNull
                            then (case ground of
                                    None \<Rightarrow> st
                                  | Some g \<Rightarrow>
                                      (write_occupancy (unobserved_value (src_map b)) (fst st)
                                         (heightmap_key b g) surface_value,
                                       snd st + 1))
                            else st)
                   else st))"

fun buildHeightmapT_walk ::
  "HeightmapBuild \<Rightarrow> Key list \<Rightarrow> OccupancyLayer \<times> nat \<Rightarrow> (OccupancyLayer \<times> nat) option" where
  "buildHeightmapT_walk b [] st = Some st"
| "buildHeightmapT_walk b (walk_key # keys) st =
     (case visit_column b walk_key st of
        None \<Rightarrow> None
      | Some st \<Rightarrow> buildHeightmapT_walk b keys st)"

text \<open>
  The build clears the heightmap, walks the columns and returns whether a voxel was
  populated.  An empty walk is a walker whose \<open>begin\<close> fails.
\<close>

definition buildHeightmapT :: "HeightmapBuild \<Rightarrow> Key list \<Rightarrow> (OccupancyLayer \<times> bool) option" where
  "buildHeightmapT b walk =
     (case buildHeightmapT_walk b walk (\<lambda>r. None, 0) of
        None \<Rightarrow> None
      | Some (hm, populated_count) \<Rightarrow> Some (hm, populated_count \<noteq> 0))"

text \<open>
  A voxel of the heightmap after the columns \<open>keys\<close> were visited: it is as cleared, or it
  holds the surface value and the ground voxel of a visited column that maps to it is
  occupied, or it holds the virtual surface value, virtual surfaces are generated and the
  ground voxel of a visited column that maps to it is free.
\<close>

definition written_by :: "HeightmapBuild \<Rightarrow> Key list \<Rightarrow> Key \<Rightarrow> OccupancyType \<Rightarrow> bool" where
  "written_by b keys hm_key type \<longleftrightarrow>
     list_ex (\<lambda>walk_key.
        case column_ground b walk_key of
          Some (Some g) \<Rightarrow> occupancyType (src_map b) g = type \<and> heightmap_key b g = hm_key
        | _ \<Rightarrow> False) keys"

definition surface_voxel_ok :: "HeightmapBuild \<Rightarrow> Key list \<Rightarrow> Key \<Rightarrow> fl \<Rightarrow> bool" where
  "surface_voxel_ok b keys hm_key v \<longleftrightarrow>
     v = unobserved_value (src_map b)
     \<or> (v = kHeightmapSurfaceValue \<and> written_by b keys hm_key kOccupied)
     \<or> (v = kHeightmapVirtualSurfaceValue \<and> generate_virtual_surface (detail b)
          \<and> written_by b keys hm_key kFree)"

definition heightmap_ok :: "HeightmapBuild \<Rightarrow> Key list \<Rightarrow> OccupancyLayer \<Rightarrow> bool" where
  "heightmap_ok b keys hm \<longleftrightarrow>
     (\<forall>r l. case hm r of
              None \<Rightarrow> True
            | Some layer \<Rightarrow> surface_voxel_ok b keys \<lparr> regionKey = r, localKey = l \<rparr> (layer l))"

text \<open>The build of the example map, for the single column of the walk key at height 1.\<close>

definition example_build :: HeightmapBuild where
  "example_build =
     \<lparr> src_map = example_map, detail = example_detail,
       min_ext_key = \<lparr> regionKey = (0, 0, - 1), localKey = (0, 0, 2) \<rparr>,
       max_ext_key = example_key 3,
       ceiling_voxels = 0, clearance_voxels = 1,
       column_of = (\<lambda>c. if c = example_key 0
                           then [example_key 0, example_key 1, example_key 2, example_key 3]
                           else [c]),
       heightmap_key = (\<lambda>g. \<lparr> regionKey = (vget (regionKey g) 0, vget (regionKey g) 1, 0),
                               localKey = (vget (localKey g) 0, vget (localKey g) 1, 0) \<rparr>) \<rparr>"

section \<open>Stepping a key along an axis\<close>

lemma sdiv_pos: "0 \<le> a \<Longrightarrow> 0 < b \<Longrightarrow> (a::int) sdiv b = a div b"
  by (auto simp: signed_divide_int_def sgn_if)

lemma smod_pos: "0 \<le> a \<Longrightarrow> 0 < b \<Longrightarrow> (a::int) smod b = a mod b"
  by (auto simp: signed_modulo_int_def sgn_if)

lemma neg_div_flip:
  assumes "l < (0::int)" "0 < b"
  shows "- ((b - 1 - l) div b) = l div b"
proof -
  define k where "k = b - 1 - l"
  have r0: "0 \<le> k mod b" "k mod b < b" using assms by simp_all
  have "k = b * (k div b) + k mod b" by simp
  then have "l = b * (- (k div b)) + (b - 1 - k mod b)"
    unfolding k_def by (simp add: algebra_simps)
  then have "l div b = - (k div b)"
    by (rule int_div_pos_eq) (use r0 in auto)
  then show ?thesis by (simp add: k_def)
qed

lemma sdiv_neg_floor:
  assumes "l < (0::int)" "0 < b"
  shows "(l - (b - 1)) sdiv b = l div b"
proof -
  have "(l - (b - 1)) sdiv b = - ((b - 1 - l) div b)"
    using assms by (auto simp: signed_divide_int_def sgn_if)
  then show ?thesis using neg_div_flip [OF assms] by simp
qed

lemma sdiv_small_neg:
  assumes "0 \<le> l" "l < b"
  shows "(l - (b - 1)) sdiv b = (0::int)"
  using assms by (auto simp: signed_divide_int_def sgn_if)

lemma smod_neg_wrap:
  assumes "l < (0::int)" "0 < b"
  shows "(let l3 = b + l smod b in if l3 = b then 0 else l3) = l mod b"
proof -
  have s: "l smod b = - ((- l) mod b)"
    using assms by (auto simp: signed_modulo_int_def sgn_if)
  have m: "l mod b = (if (- l) mod b = 0 then 0 else b - ((- l) mod b))"
    using zmod_zminus1_eq_if [of "- l" b] by simp
  show ?thesis by (simp add: s m Let_def)
qed


lemma vget_vset_same: "vget (vset v i x) i = x"
  by (cases v) auto

lemma vset_vget_same: "vset v i (vget v i) = v"
  by (cases v) auto

lemma sint16_word_of_int: "int16_ok v \<Longrightarrow> sint (word_of_int v :: 16 word) = v"
  unfolding int16_ok_def by (simp add: sint_sbintrunc' signed_take_bit_int_eq_self)

lemma uint8_word_of_int: "0 \<le> v \<Longrightarrow> v < 256 \<Longrightarrow> uint (word_of_int v :: 8 word) = v"
  by (simp add: uint_word_of_int take_bit_int_eq_self)

lemma quotient_range:
  fixes l lim q :: int
  assumes lim: "0 < lim" "lim \<le> 255" and q: "- (2 ^ 16) < l div lim" "l div lim < 2 ^ 16"
  shows "- (2 ^ 24) < l \<and> l < 2 ^ 24"
proof -
  have l: "l = lim * (l div lim) + l mod lim" by simp
  have m: "0 \<le> l mod lim" "l mod lim < lim" using lim by simp_all
  have "lim * (l div lim) \<le> lim * (2 ^ 16 - 1)"
    using lim q by (intro mult_left_mono) auto
  also have "\<dots> \<le> 255 * (2 ^ 16 - 1)" using lim by (intro mult_right_mono) auto
  finally have up: "lim * (l div lim) \<le> 255 * (2 ^ 16 - 1)" .
  have "lim * (- (2 ^ 16) + 1) \<le> lim * (l div lim)"
    using lim q by (intro mult_left_mono) auto
  moreover have "255 * (- (2 ^ 16) + 1) \<le> lim * (- (2 ^ 16) + 1)"
    using lim by (intro mult_right_mono_neg) auto
  ultimately have lo: "255 * (- (2 ^ 16) + 1) \<le> lim * (l div lim)" by linarith
  have up': "lim * (l div lim) \<le> 16711425" using up by simp
  have lo': "- 16711425 \<le> lim * (l div lim)" using lo by simp
  have "- 16777216 < l \<and> l < 16777216" using l m up' lo' lim by linarith
  then show ?thesis by simp
qed

lemma moveKeyAlongAxis_floor:
  assumes ax: "axis \<le> 2"
    and lim: "0 < vget dims axis" "vget dims axis \<le> 255"
    and loc: "local_in_region dims key axis"
    and reg: "int16_ok (stepped_region dims key axis n)"
  shows "moveKeyAlongAxis key axis n dims =
           Some \<lparr> regionKey = vset (regionKey key) axis
                                 (word_of_int (stepped_region dims key axis n)),
                  localKey = vset (localKey key) axis
                                 (word_of_int ((uint (vget (localKey key) axis) + n)
                                    mod vget dims axis)) \<rparr>"
proof -
  define lim where "lim = vget dims axis"
  define l0 where "l0 = uint (vget (localKey key) axis)"
  define r0 where "r0 = sint (vget (regionKey key) axis)"
  define l1 where "l1 = l0 + n"
  have l0: "0 \<le> l0" "l0 < lim" using loc by (simp_all add: l0_def lim_def local_in_region_def)
  have lim': "0 < lim" "lim \<le> 255" using lim by (simp_all add: lim_def)
  have r0: "- (2 ^ 15) \<le> r0" "r0 < 2 ^ 15"
    using sint_ge [of "vget (regionKey key) axis"] sint_lt [of "vget (regionKey key) axis"]
    by (simp_all add: r0_def)
  have sr: "stepped_region dims key axis n = r0 + l1 div lim"
    by (simp add: stepped_region_def r0_def l1_def l0_def lim_def)
  have q: "- (2 ^ 16) < l1 div lim" "l1 div lim < 2 ^ 16"
    using reg r0 unfolding sr int16_ok_def by auto
  have l1r: "- (2 ^ 24) < l1" "l1 < 2 ^ 24"
    using quotient_range [OF lim' q] by auto
  have ok_l1: "int_ok l1" using l1r by (simp add: int_ok_def)
  have ok_q: "int_ok (l1 div lim)" using q by (simp add: int_ok_def)
  have ok_rq: "int_ok (r0 + l1 div lim)" using q r0 by (simp add: int_ok_def)
  show ?thesis
  proof (cases "n = 0")
    case True
    have "l1 div lim = 0" "l1 mod lim = l0" using True l0 by (simp_all add: l1_def)
    then have "stepped_region dims key axis n = r0" "(l0 + n) mod lim = l0"
      using sr by (simp_all add: l1_def)
    then show ?thesis
      using True
      by (simp add: moveKeyAlongAxis_def r0_def l0_def [symmetric] lim_def [symmetric]
          vset_vget_same, simp add: l0_def vset_vget_same)
  next
    case False
    show ?thesis
    proof (cases "0 < n")
      case True
      have l1p: "0 \<le> l1" using True l0 by (simp add: l1_def)
      have "l1 sdiv lim = l1 div lim" "l1 smod lim = l1 mod lim"
        using l1p lim' by (simp_all add: sdiv_pos smod_pos)
      then show ?thesis
        using True False ax ok_l1 ok_q ok_rq lim'
        unfolding moveKeyAlongAxis_def sr
        by (simp add: Let_def r0_def [symmetric] l0_def [symmetric] lim_def [symmetric]
            l1_def [symmetric])
    next
      case neg: False
      then have nneg: "n < 0" using False by simp
      have l1lt: "l1 < lim" using nneg l0 by (simp add: l1_def)
      have okn: "int_ok (lim - 1)" "int_ok (l1 - (lim - 1))"
        using lim' l1r by (simp_all add: int_ok_def)
      show ?thesis
      proof (cases "l1 < 0")
        case True
        have d: "(l1 - (lim - 1)) sdiv lim = l1 div lim"
          using True lim' by (simp add: sdiv_neg_floor)
        have m: "(let l3 = lim + l1 smod lim in if l3 = lim then 0 else l3) = l1 mod lim"
          by (rule smod_neg_wrap [OF True lim'(1)])
        have s: "l1 smod lim = - ((- l1) mod lim)"
          using True lim' by (auto simp: signed_modulo_int_def sgn_if)
        have mm: "0 \<le> (- l1) mod lim" "(- l1) mod lim < lim" using lim' by simp_all
        have "0 \<le> lim + l1 smod lim \<and> lim + l1 smod lim \<le> 255"
          unfolding s using mm lim' by linarith
        then have ok3: "int_ok (lim + l1 smod lim)" by (simp add: int_ok_def)
        show ?thesis
          using True False nneg ax ok_l1 ok_q ok_rq lim' okn ok3 m
          unfolding moveKeyAlongAxis_def sr
          by (simp add: Let_def r0_def [symmetric] l0_def [symmetric] lim_def [symmetric]
              l1_def [symmetric] d)
      next
        case l1nn: False
        have d: "(l1 - (lim - 1)) sdiv lim = 0"
          using l1nn l1lt by (simp add: sdiv_small_neg)
        have z: "l1 div lim = 0" "l1 mod lim = l1" using l1nn l1lt by simp_all
        show ?thesis
          using l1nn False nneg ax ok_l1 lim' okn r0
          unfolding moveKeyAlongAxis_def sr
          by (simp add: Let_def r0_def [symmetric] l0_def [symmetric] lim_def [symmetric]
              l1_def [symmetric] d z int_ok_def)
      qed
    qed
  qed
qed


lemma moveKeyAlongAxis_local:
  assumes ax: "axis \<le> 2"
    and lim: "0 < vget dims axis" "vget dims axis \<le> 255"
    and loc: "local_in_region dims key axis"
    and res: "moveKeyAlongAxis key axis n dims = Some k'"
  shows "uint (vget (localKey k') axis) = (uint (vget (localKey key) axis) + n) mod vget dims axis"
proof -
  define lim where "lim = vget dims axis"
  define l0 where "l0 = uint (vget (localKey key) axis)"
  define l1 where "l1 = l0 + n"
  have l0: "0 \<le> l0" "l0 < lim" using loc by (simp_all add: l0_def lim_def local_in_region_def)
  have lim': "0 < lim" "lim \<le> 255" using lim by (simp_all add: lim_def)
  have md: "0 \<le> l1 mod lim" "l1 mod lim < 256"
    using lim' pos_mod_bound [of lim l1] pos_mod_sign [of lim l1] by linarith+
  have u: "uint (word_of_int (l1 mod lim) :: 8 word) = l1 mod lim"
    using md by (rule uint8_word_of_int)
  show ?thesis
  proof (cases "n = 0")
    case True
    then have "k' = key" using res by (simp add: moveKeyAlongAxis_def)
    then show ?thesis using True l0 by (simp add: l0_def [symmetric] lim_def [symmetric])
  next
    case False
    show ?thesis
    proof (cases "0 < n")
      case True
      have l1p: "0 \<le> l1" using True l0 by (simp add: l1_def)
      have sm: "l1 smod lim = l1 mod lim" using l1p lim' by (simp add: smod_pos)
      have "localKey k' = vset (localKey key) axis (word_of_int (l1 mod lim))"
        using res True False ax
        unfolding moveKeyAlongAxis_def
        by (auto simp: Let_def l0_def [symmetric] lim_def [symmetric] l1_def [symmetric] sm
            split: if_splits)
      then show ?thesis
        by (simp add: vget_vset_same u l0_def [symmetric] lim_def [symmetric] l1_def [symmetric])
    next
      case neg: False
      then have nneg: "n < 0" using False by simp
      have l1lt: "l1 < lim" using nneg l0 by (simp add: l1_def)
      have m: "(if l1 < 0 then (let l3 = lim + l1 smod lim in if l3 = lim then 0 else l3) else l1)
                 = l1 mod lim"
        using smod_neg_wrap [of l1 lim] lim' l1lt by (cases "l1 < 0") simp_all
      have "localKey k' = vset (localKey key) axis (word_of_int (l1 mod lim))"
        using res nneg False ax
        unfolding moveKeyAlongAxis_def m [symmetric]
        by (auto simp: Let_def l0_def [symmetric] lim_def [symmetric] l1_def [symmetric]
            split: if_splits)
      then show ?thesis
        by (simp add: vget_vset_same u l0_def [symmetric] lim_def [symmetric] l1_def [symmetric])
    qed
  qed
qed

text \<open>
  Claim C5 (step consistency), as the code supports it.  For a key whose local coordinate
  on the axis lies inside the region and a region dimension between 1 and 255, stepping by
  \<open>n\<close> and taking the signed voxel delta back yields exactly \<open>n\<close> whenever the
  floored region coordinate \<open>region + \<lfloor>(local + n) / dim\<rfloor>\<close> still fits the 16-bit
  region type; and whenever the step returns at all, the new local coordinate lies in
  \<open>[0, dim)\<close>, for negative steps as well.
\<close>

theorem moveKeyAlongAxis_step_consistency:
  assumes "axis \<le> 2"
    and "0 < vget dims axis" and "vget dims axis \<le> 255"
    and "local_in_region dims key axis"
  shows "(int16_ok (stepped_region dims key axis n) \<longrightarrow>
           (\<exists>k'. moveKeyAlongAxis key axis n dims = Some k' \<and> rangeBetween dims key k' axis = n))
       \<and> (\<forall>k'. moveKeyAlongAxis key axis n dims = Some k' \<longrightarrow> local_in_region dims k' axis)"
proof (intro conjI impI allI)
  assume reg: "int16_ok (stepped_region dims key axis n)"
  define l1 where "l1 = uint (vget (localKey key) axis) + n"
  define lim where "lim = vget dims axis"
  have lim': "0 < lim" "lim \<le> 255" using assms by (simp_all add: lim_def)
  have md: "0 \<le> l1 mod lim" "l1 mod lim < 256"
    using lim' pos_mod_bound [of lim l1] pos_mod_sign [of lim l1] by linarith+
  have sr: "stepped_region dims key axis n = sint (vget (regionKey key) axis) + l1 div lim"
    by (simp add: stepped_region_def l1_def lim_def)
  have s16: "sint (word_of_int (stepped_region dims key axis n) :: 16 word)
              = stepped_region dims key axis n"
    by (rule sint16_word_of_int [OF reg])
  have u8: "uint (word_of_int (l1 mod lim) :: 8 word) = l1 mod lim"
    using md by (rule uint8_word_of_int)
  have "rangeBetween dims key
          \<lparr> regionKey = vset (regionKey key) axis (word_of_int (stepped_region dims key axis n)),
            localKey = vset (localKey key) axis (word_of_int (l1 mod lim)) \<rparr> axis
        = (stepped_region dims key axis n - sint (vget (regionKey key) axis)) * lim
          + (l1 mod lim - uint (vget (localKey key) axis))"
    by (simp only: rangeBetween_def vget_vset_same Key.select_convs s16 u8 [unfolded lim_def]
        lim_def)
  also have "\<dots> = l1 div lim * lim + (l1 mod lim - uint (vget (localKey key) axis))"
    by (simp add: sr)
  also have "\<dots> = l1 - uint (vget (localKey key) axis)"
    using div_mult_mod_eq [of l1 lim] by linarith
  also have "\<dots> = n" by (simp add: l1_def)
  finally show "\<exists>k'. moveKeyAlongAxis key axis n dims = Some k' \<and> rangeBetween dims key k' axis = n"
    using moveKeyAlongAxis_floor [OF assms reg] by (simp add: l1_def lim_def)
next
  fix k'
  assume "moveKeyAlongAxis key axis n dims = Some k'"
  from moveKeyAlongAxis_local [OF assms this]
  show "local_in_region dims k' axis"
    using assms by (simp add: local_in_region_def)
qed

text \<open>A negative step across a region boundary: local coordinate 1, step \<open>-4\<close>.\<close>

theorem moveKeyAlongAxis_step_consistency_witness:
  "(2::nat) \<le> 2 \<and> 0 < vget (8, 8, 8 :: int) 2 \<and> vget (8, 8, 8 :: int) 2 \<le> 255
   \<and> local_in_region (8, 8, 8) \<lparr> regionKey = (0, 0, 0), localKey = (0, 0, 1) \<rparr> 2
   \<and> int16_ok (stepped_region (8, 8, 8) \<lparr> regionKey = (0, 0, 0), localKey = (0, 0, 1) \<rparr> 2 (- 4))
   \<and> moveKeyAlongAxis \<lparr> regionKey = (0, 0, 0), localKey = (0, 0, 1) \<rparr> 2 (- 4) (8, 8, 8)
        = Some \<lparr> regionKey = (0, 0, - 1), localKey = (0, 0, 5) \<rparr>
   \<and> rangeBetween (8, 8, 8) \<lparr> regionKey = (0, 0, 0), localKey = (0, 0, 1) \<rparr>
         \<lparr> regionKey = (0, 0, - 1), localKey = (0, 0, 5) \<rparr> 2 = - 4
   \<and> local_in_region (8, 8, 8) \<lparr> regionKey = (0, 0, - 1), localKey = (0, 0, 5) \<rparr> 2"
proof -
  let ?k = "\<lparr> regionKey = (0, 0, 0), localKey = (0, 0, 1 :: 8 word) \<rparr> :: Key"
  have h: "(2::nat) \<le> 2" "0 < vget (8, 8, 8 :: int) 2" "vget (8, 8, 8 :: int) 2 \<le> 255"
    "local_in_region (8, 8, 8) ?k 2"
    by (simp_all add: local_in_region_def)
  have r: "int16_ok (stepped_region (8, 8, 8) ?k 2 (- 4))"
    by (simp add: int16_ok_def stepped_region_def)
  have m: "moveKeyAlongAxis ?k 2 (- 4) (8, 8, 8)
        = Some \<lparr> regionKey = (0, 0, - 1), localKey = (0, 0, 5) \<rparr>"
    by (simp add: moveKeyAlongAxis_def int_ok_def signed_divide_int_def signed_modulo_int_def)
  show ?thesis
    using moveKeyAlongAxis_step_consistency [OF h, of "- 4"] h r m by simp
qed

text \<open>
  The claim as stated quantifies over every integer step.  The region coordinate is a 16-bit
  integer: a step of \<open>65536 \<cdot> 8\<close> voxels in a map with regions of 8 voxels carries
  65536 into the region coordinate, which narrows to 0, so the key comes back unchanged and
  the voxel delta is 0, not the step.
\<close>

theorem moveKeyAlongAxis_step_wraps_counterexample:
  "moveKeyAlongAxis \<lparr> regionKey = (0, 0, 0), localKey = (0, 0, 0) \<rparr> 0 524288 (8, 8, 8)
     = Some \<lparr> regionKey = (0, 0, 0), localKey = (0, 0, 0) \<rparr>
   \<and> rangeBetween (8, 8, 8) \<lparr> regionKey = (0, 0, 0), localKey = (0, 0, 0) \<rparr>
        \<lparr> regionKey = (0, 0, 0), localKey = (0, 0, 0) \<rparr> 0 \<noteq> 524288"
  by (simp add: moveKeyAlongAxis_def int_ok_def signed_divide_int_def signed_modulo_int_def
      rangeBetween_def)

section \<open>The incident normal update\<close>

lemma is_finite_iff: "is_finite x \<longleftrightarrow> (\<exists>a. x = Fin a)"
  by (cases x) (simp_all add: is_finite_def)

lemma finite_vecE:
  assumes "finite_vec v"
  obtains x y z where "v = (Fin x, Fin y, Fin z)"
  using assms by (cases v) (auto simp: finite_vec_def is_finite_iff)

lemma is_finite_Fin [simp]: "is_finite (Fin a)"
  by (simp add: is_finite_def)

lemma is_finite_fadd [simp]: "is_finite x \<Longrightarrow> is_finite y \<Longrightarrow> is_finite (fadd x y)"
  by (auto simp: is_finite_iff)

lemma is_finite_fsub [simp]: "is_finite x \<Longrightarrow> is_finite y \<Longrightarrow> is_finite (fsub x y)"
  by (auto simp: is_finite_iff fsub_def)

lemma is_finite_fmul [simp]: "is_finite x \<Longrightarrow> is_finite y \<Longrightarrow> is_finite (fmul x y)"
  by (auto simp: is_finite_iff)

lemma vget_triple [simp]:
  "vget (x, y, z) 0 = x" "vget (x, y, z) (Suc 0) = y" "vget (x, y, z) 2 = z"
  by simp_all

lemma is_finite_rescale:
  assumes "is_finite L"
  shows "is_finite (if fgt L normal_epsilon then fdiv (Fin 1) (fsqrt L) else Fin 0)"
proof -
  obtain l where l: "L = Fin l" using assms by (auto simp: is_finite_iff)
  show ?thesis
  proof (cases "1 / 1000000 < l")
    case True
    then have "0 < l" by simp
    then show ?thesis using True by (simp add: l fgt_def normal_epsilon_def)
  next
    case False
    then show ?thesis by (simp add: l fgt_def normal_epsilon_def)
  qed
qed

lemma renormalise_zero_or_unit:
  assumes "is_finite nx" "is_finite ny" "is_finite nz"
  shows "zero_or_unit
     (vscale (nx, ny, nz)
        (if fgt (fadd (fadd (fmul nx nx) (fmul ny ny)) (fmul nz nz)) normal_epsilon
         then fdiv (Fin 1) (fsqrt (fadd (fadd (fmul nx nx) (fmul ny ny)) (fmul nz nz)))
         else Fin 0))"
proof -
  obtain x y z where v: "nx = Fin x" "ny = Fin y" "nz = Fin z"
    using assms by (auto simp: is_finite_iff)
  define L where "L = x * x + y * y + z * z"
  show ?thesis
  proof (cases "1 / 1000000 < L")
    case True
    then have pos: "0 < L" by simp
    then have s: "sqrt L \<noteq> 0" "0 \<le> L" by simp_all
    define q where "q = 1 / sqrt L"
    have qq: "q * q = 1 / L"
      using s by (simp add: q_def)
    have "x * q * (x * q) + y * q * (y * q) + z * q * (z * q) = L * (q * q)"
      by (simp add: L_def algebra_simps)
    also have "\<dots> = 1" using pos by (simp add: qq)
    finally show ?thesis
      using True s
      by (simp add: v zero_or_unit_def fgt_def normal_epsilon_def L_def [symmetric]
          q_def [symmetric])
  next
    case False
    then show ?thesis
      by (simp add: v zero_or_unit_def fgt_def normal_epsilon_def L_def [symmetric])
  qed
qed

text \<open>
  Away from the wrap of the count the function does what it sets out to do: for a finite
  normal and a finite incident ray the returned vector is the zero vector or has squared
  length one in exact arithmetic, when the count is not \<open>2\<^sup>3\<^sup>2 - 1\<close> or the incoming normal
  is zero, which resets the count.
\<close>

lemma updateIncidentNormalV3_zero_or_unit:
  assumes n: "finite_vec normal" and r: "finite_vec incident_ray"
    and c: "point_count \<noteq> - 1 \<or> normal = (Fin 0, Fin 0, Fin 0)"
  shows "zero_or_unit (updateIncidentNormalV3 normal incident_ray point_count)"
proof -
  obtain nx ny nz where nv: "normal = (Fin nx, Fin ny, Fin nz)" using n by (rule finite_vecE)
  obtain rx ry rz where rv: "incident_ray = (Fin rx, Fin ry, Fin rz)" using r by (rule finite_vecE)
  define pc where "pc =
    (if (fne (vget normal 0) (Fin 0) \<or> fne (vget normal 1) (Fin 0) \<or> fne (vget normal 2) (Fin 0))
         \<and> point_count \<noteq> 0 then point_count else 0)"
  have "pc \<noteq> - 1" using c by (auto simp: pc_def nv fne_def)
  then have "pc + 1 \<noteq> 0" by (metis add_eq_0_iff2)
  then have cnt: "real (unat (pc + 1)) \<noteq> 0" by (simp add: unsigned_eq_0_iff)
  have one_on: "is_finite (fdiv (Fin 1) (Fin (real (unat (pc + 1)))))"
    using cnt by simp
  define w where "w = fdiv (Fin 1) (Fin (real (unat (pc + 1))))"
  define s where "s =
    (if fgt (fadd (fadd (fmul (vget incident_ray 0) (vget incident_ray 0))
                        (fmul (vget incident_ray 1) (vget incident_ray 1)))
                  (fmul (vget incident_ray 2) (vget incident_ray 2))) normal_epsilon
     then fdiv (Fin 1) (fsqrt (fadd (fadd (fmul (vget incident_ray 0) (vget incident_ray 0))
                        (fmul (vget incident_ray 1) (vget incident_ray 1)))
                  (fmul (vget incident_ray 2) (vget incident_ray 2)))) else Fin 0)"
  have sf: "is_finite s"
    unfolding s_def by (rule is_finite_rescale) (simp add: rv)
  have wf: "is_finite w" using one_on by (simp add: w_def)
  have ray: "vscale incident_ray s = (fmul (Fin rx) s, fmul (Fin ry) s, fmul (Fin rz) s)"
    by (simp add: rv)
  show ?thesis
    unfolding updateIncidentNormalV3_def Let_def pc_def [symmetric] w_def [symmetric]
      s_def [symmetric]
    by (rule renormalise_zero_or_unit) (simp_all add: ray nv sf wf del: vget.simps)
qed

text \<open>
  Claim C10.  The returned vector is to be the zero vector or a unit vector for every point
  count, and the function renormalises its result to that end.  It computes
  \<open>(float)(point_count + 1)\<close> on \<open>unsigned\<close>, where \<open>unpackCovariance\<close> converts the count
  before adding one.  At the count \<open>2\<^sup>3\<^sup>2 - 1\<close> with a non-zero normal the sum wraps to zero,
  the reciprocal is infinite and the returned vector consists of NaN: it is neither zero nor
  of unit length.
\<close>

theorem updateIncidentNormalV3_count_wrap:
  "updateIncidentNormalV3 (Fin 1, Fin 0, Fin 0) (Fin 0, Fin 1, Fin 0) (- 1) = (NaN, NaN, NaN)
   \<and> \<not> zero_or_unit (updateIncidentNormalV3 (Fin 1, Fin 0, Fin 0) (Fin 0, Fin 1, Fin 0) (- 1))"
  by (simp add: updateIncidentNormalV3_def fne_def fgt_def normal_epsilon_def fsub_def
      zero_or_unit_def)

section \<open>The NDT hit update\<close>

lemma upt3: "[0 ..< 3] = [0, 1, 2]" "[1 ..< 3] = [1, 2]" "[2 ..< 3] = [2]" "[3 ..< 3] = []"
  "[0 ..< 6] = [0, 1, 2, 3, 4, 5]" "[0 ..< 1] = [0]" "[0 ..< 2] = [0, 1]"
  "[Suc 0 ..< 3] = [1, 2]" "[Suc (Suc 0) ..< 3] = [2]" "[0 ..< Suc 0] = [0]"
  "[0 ..< Suc (Suc 0)] = [0, 1]"
  by (simp_all add: upt_rec)

lemma length6E:
  assumes "length xs = 6"
  obtains a b c d e f where "xs = [a, b, c, d, e, f]"
proof -
  from assms have "\<exists>a b c d e f. xs = [a, b, c, d, e, f]"
    by (auto simp: eval_nat_numeral length_Suc_conv)
  then show ?thesis using that by blast
qed

lemma initialiseCovariance_scaled_identity:
  assumes "length cov = 6"
  shows "initialiseCovariance cov s = scaled_identity (fmul s s)"
proof -
  obtain a b c d e f where "cov = [a, b, c, d, e, f]" using assms by (rule length6E)
  then show ?thesis
    by (simp add: initialiseCovariance_def scaled_identity_def Let_def)
qed

text \<open>
  Claim C1, as the code supports it.  The covariance carried into the Gram-Schmidt update is
  the identity scaled by the \<^emph>\<open>square\<close> of the sensor noise exactly when one of the three
  triggers holds, and the stored covariance otherwise; the occupancy value is set to the hit
  value in the first case and incremented by it in the second; the function returns whether
  the reset took place.
\<close>

theorem calculateHitWithCovariance_reset:
  assumes "length cov_voxel = 6"
  shows "calculateHitWithCovariance cov_voxel voxel_value sample voxel_mean point_count hit_value
           uninitialised_value sensor_noise reinitialise_threshold reinitialise_sample_count =
         (let reset = reset_trigger voxel_value point_count uninitialised_value
                        reinitialise_threshold reinitialise_sample_count;
              carried = (if reset then scaled_identity (fmul sensor_noise sensor_noise)
                         else cov_voxel)
          in (updateCovariance carried
                (unpackCovariance carried point_count (vsub sample voxel_mean)),
              if reset then hit_value else fadd voxel_value hit_value,
              reset))"
proof -
  have t: "(feq voxel_value uninitialised_value \<or> point_count = 0 \<or>
             flt voxel_value reinitialise_threshold \<and> reinitialise_sample_count \<le> point_count)
           = reset_trigger voxel_value point_count uninitialised_value
                        reinitialise_threshold reinitialise_sample_count"
    by (auto simp: reset_trigger_def)
  show ?thesis
    unfolding calculateHitWithCovariance_def Let_def t
    by (simp add: initialiseCovariance_scaled_identity [OF assms])
qed

text \<open>
  A voxel with three samples and the occupancy value 2, above the threshold 0: no trigger
  holds and the stored covariance goes into the update.
\<close>

theorem calculateHitWithCovariance_reset_witness:
  "length [Fin 4, Fin 0, Fin 4, Fin 0, Fin 0, Fin 4] = 6
   \<and> \<not> reset_trigger (Fin 2) 3 PInf (Fin 0) 4
   \<and> calculateHitWithCovariance [Fin 4, Fin 0, Fin 4, Fin 0, Fin 0, Fin 4] (Fin 2)
        (Fin 1, Fin 2, Fin 3) (Fin 0, Fin 0, Fin 0) 3 (Fin 1) PInf (Fin 2) (Fin 0) 4
      = (updateCovariance [Fin 4, Fin 0, Fin 4, Fin 0, Fin 0, Fin 4]
           (unpackCovariance [Fin 4, Fin 0, Fin 4, Fin 0, Fin 0, Fin 4] 3
              (vsub (Fin 1, Fin 2, Fin 3) (Fin 0, Fin 0, Fin 0))),
         Fin 3, False)"
proof -
  have h: "length [Fin 4, Fin 0, Fin 4, Fin 0, Fin 0, Fin 4] = 6" by simp
  have r: "\<not> reset_trigger (Fin 2) 3 PInf (Fin 0) 4" by (simp add: reset_trigger_def)
  show ?thesis
    using calculateHitWithCovariance_reset [OF h, of "Fin 2" "(Fin 1, Fin 2, Fin 3)"
        "(Fin 0, Fin 0, Fin 0)" 3 "Fin 1" PInf "Fin 2" "Fin 0" 4] r
    by (simp add: Let_def)
qed

lemma sqrt16: "sqrt 16 = 4"
  using real_sqrt_abs2 [of 4] by simp

lemma unpack_first:
  "unpackCovariance [Fin 4, Fin 0, Fin 4, Fin 0, Fin 0, Fin 4] 0
      (vsub (Fin 1, Fin 2, Fin 3) (Fin 0, Fin 0, Fin 0))
   = [Fin 4, Fin 0, Fin 4, Fin 0, Fin 0, Fin 4, Fin 0, Fin 0, Fin 0]"
  by (simp add: unpackCovariance_def upt3 fsub_def Let_def)

lemma packedDot_first:
  "packedDot [Fin 4, Fin 0, Fin 4, Fin 0, Fin 0, Fin 4, Fin 0, Fin 0, Fin 0] 0 0 = Fin 16"
  "packedDot [Fin 4, Fin 0, Fin 4, Fin 0, Fin 0, Fin 4, Fin 0, Fin 0, Fin 0] 1 0 = Fin 0"
  "packedDot [Fin 4, Fin 0, Fin 4, Fin 0, Fin 0, Fin 4, Fin 0, Fin 0, Fin 0] 2 0 = Fin 0"
  "packedDot [Fin 4, Fin 0, Fin 4, Fin 0, Fin 0, Fin 4, Fin 0, Fin 0, Fin 0] 1 1 = Fin 16"
  "packedDot [Fin 4, Fin 0, Fin 4, Fin 0, Fin 0, Fin 4, Fin 0, Fin 0, Fin 0] 2 1 = Fin 0"
  "packedDot [Fin 4, Fin 0, Fin 4, Fin 0, Fin 0, Fin 4, Fin 0, Fin 0, Fin 0] 2 2 = Fin 16"
  "packedDot [Fin 4, Fin 0, Fin 4, Fin 0, Fin 0, Fin 4, Fin 0, Fin 0, Fin 0] (Suc 0) 0 = Fin 0"
  "packedDot [Fin 4, Fin 0, Fin 4, Fin 0, Fin 0, Fin 4, Fin 0, Fin 0, Fin 0] (Suc 0) (Suc 0) = Fin 16"
  "packedDot [Fin 4, Fin 0, Fin 4, Fin 0, Fin 0, Fin 4, Fin 0, Fin 0, Fin 0] 2 (Suc 0) = Fin 0"
  by (simp_all add: packedDot_def col_first_el_def upt3)

lemma gs_step_first:
  "gs_step 0 ([Fin 4, Fin 0, Fin 4, Fin 0, Fin 0, Fin 4],
              [Fin 4, Fin 0, Fin 4, Fin 0, Fin 0, Fin 4, Fin 0, Fin 0, Fin 0])
    = ([Fin 4, Fin 0, Fin 4, Fin 0, Fin 0, Fin 4],
       [Fin 4, Fin 0, Fin 4, Fin 0, Fin 0, Fin 4, Fin 0, Fin 0, Fin 0])"
  "gs_step (Suc 0) ([Fin 4, Fin 0, Fin 4, Fin 0, Fin 0, Fin 4],
              [Fin 4, Fin 0, Fin 4, Fin 0, Fin 0, Fin 4, Fin 0, Fin 0, Fin 0])
    = ([Fin 4, Fin 0, Fin 4, Fin 0, Fin 0, Fin 4],
       [Fin 4, Fin 0, Fin 4, Fin 0, Fin 0, Fin 4, Fin 0, Fin 0, Fin 0])"
  "gs_step 2 ([Fin 4, Fin 0, Fin 4, Fin 0, Fin 0, Fin 4],
              [Fin 4, Fin 0, Fin 4, Fin 0, Fin 0, Fin 4, Fin 0, Fin 0, Fin 0])
    = ([Fin 4, Fin 0, Fin 4, Fin 0, Fin 0, Fin 4],
       [Fin 4, Fin 0, Fin 4, Fin 0, Fin 0, Fin 4, Fin 0, Fin 0, Fin 0])"
  by (simp_all add: gs_step_def gs_column_def gs_inner_def packedDot_first upt3 fsub_def fgt_def
      Let_def sqrt16)

text \<open>
  The claim as stated gives the reset value as the identity scaled by the sensor noise.  The
  first hit on an unobserved voxel with sensor noise 2 leaves the covariance \<open>4 \<cdot> I\<close>, the
  identity scaled by the square of the sensor noise, not \<open>2 \<cdot> I\<close>.
\<close>

theorem calculateHitWithCovariance_reset_scale_counterexample:
  "reset_trigger PInf 0 PInf (Fin 0) 4
   \<and> calculateHitWithCovariance [Fin 0, Fin 0, Fin 0, Fin 0, Fin 0, Fin 0] PInf
        (Fin 1, Fin 2, Fin 3) (Fin 0, Fin 0, Fin 0) 0 (Fin 1) PInf (Fin 2) (Fin 0) 4
      = (scaled_identity (Fin 4), Fin 1, True)
   \<and> initialiseCovariance [Fin 0, Fin 0, Fin 0, Fin 0, Fin 0, Fin 0] (Fin 2)
      = scaled_identity (Fin 4)
   \<and> scaled_identity (Fin 4) \<noteq> scaled_identity (Fin 2)"
  by (simp add: calculateHitWithCovariance_def initialiseCovariance_def updateCovariance_def
      unpack_first [unfolded vsub.simps] gs_step_first upt3 Let_def reset_trigger_def
      scaled_identity_def)

section \<open>The NDT miss update\<close>

lemma vsub_fvec: "vsub (fvec a) (fvec b) = fvec (rsub a b)"
  by (cases a; cases b) (simp add: fsub_def)

lemma vadd_fvec: "vadd (fvec a) (fvec b) = fvec (radd a b)"
  by (cases a; cases b) simp

lemma vscale_fvec: "vscale (fvec a) (Fin s) = fvec (rscale s a)"
  by (cases a) simp

lemma covdot_fvec: "covdot (fvec a) (fvec b) = Fin (rdot a b)"
  by (cases a; cases b) simp

lemma rdot_self_pos: "a \<noteq> (0, 0, 0) \<Longrightarrow> 0 < rdot a a"
proof (cases a)
  case (fields x y z)
  assume "a \<noteq> (0, 0, 0)"
  then have "x \<noteq> 0 \<or> y \<noteq> 0 \<or> z \<noteq> 0" using fields by simp
  then have "0 < x * x + y * y + z * z"
    by (metis add_pos_nonneg add_nonneg_pos not_real_square_gt_zero zero_le_square add_nonneg_nonneg)
  then show ?thesis using fields by simp
qed

lemma rsub_eq_zero: "rsub a b = (0, 0, 0) \<longleftrightarrow> a = b"
  by (cases a; cases b) auto

lemma covnormalize_fvec:
  assumes "d \<noteq> (0, 0, 0)"
  shows "covnormalize (fvec d) = fvec (rscale (1 / sqrt (rdot d d)) d)"
proof -
  have "0 < rdot d d" using assms by (rule rdot_self_pos)
  then have "0 \<le> rdot d d" "sqrt (rdot d d) \<noteq> 0" by simp_all
  then show ?thesis
    by (simp add: covnormalize_def covdot_fvec vscale_fvec)
qed

lemma solveTriangular_fvec:
  assumes "length c = 6" "c ! 0 \<noteq> 0" "c ! 2 \<noteq> 0" "c ! 5 \<noteq> 0"
  shows "solveTriangular (map Fin c) (fvec y) = fvec (lower_solve c y)"
proof -
  obtain y0 y1 y2 where y: "y = (y0, y1, y2)" by (cases y)
  obtain c0 c1 c2 c3 c4 c5 where c: "c = [c0, c1, c2, c3, c4, c5]"
    using assms(1) by (rule length6E)
  show ?thesis
    using assms(2-4) by (simp add: y c fsub_def Let_def)
qed

lemma lower_solve_inverse:
  assumes "c ! 0 \<noteq> 0" "c ! 2 \<noteq> 0" "c ! 5 \<noteq> 0"
  shows "lower_mul c (lower_solve c y) = y"
  using assms by (cases y) (simp add: Let_def field_simps)

lemma lower_solve_nonzero:
  assumes "c ! 0 \<noteq> 0" "c ! 2 \<noteq> 0" "c ! 5 \<noteq> 0" "y \<noteq> (0, 0, 0)"
  shows "lower_solve c y \<noteq> (0, 0, 0)"
proof
  assume "lower_solve c y = (0, 0, 0)"
  then have "lower_mul c (lower_solve c y) = (0, 0, 0)" by simp
  then show False using lower_solve_inverse [OF assms(1-3), of y] assms(4) by simp
qed

lemma rscale_nonzero: "s \<noteq> 0 \<Longrightarrow> d \<noteq> (0, 0, 0) \<Longrightarrow> rscale s d \<noteq> (0, 0, 0)"
  by (cases d) auto


lemma scale_range:
  fixes m :: real
  shows "0 < 1 - 1 / (1 + exp m)" "1 - 1 / (1 + exp m) < 1"
proof -
  have pos: "0 < 1 + exp m" by (simp add: add_pos_pos)
  have "1 / (1 + exp m) < 1" using pos by (simp add: divide_less_eq)
  then show "0 < 1 - 1 / (1 + exp m)" by simp
  have "0 < 1 / (1 + exp m)" by (simp add: add_pos_pos)
  then show "1 - 1 / (1 + exp m) < 1" by simp
qed

lemma delta_p_le_half: "ndt_delta_p c sensor sample mean miss_value sigma \<le> 1 / 2"
proof -
  define x where "x = ndt_x_ml c sensor sample mean"
  define u where "u = lower_solve c (rsub x mean)"
  define w where "w = rsub x sample"
  define p1 where "p1 = exp (- (1 / 2) * rdot u u)"
  define p2 where "p2 = exp (- (1 / 2) * rdot w w / (sigma * sigma))"
  define sc where "sc = 1 - 1 / (1 + exp miss_value)"
  have "0 \<le> rdot w w" by (cases w) simp
  then have "- (1 / 2) * rdot w w / (sigma * sigma) \<le> 0"
    by (simp add: divide_nonpos_nonneg)
  then have p2: "p2 \<le> 1" by (simp add: p2_def)
  have p1: "0 \<le> p1" by (simp add: p1_def)
  have sc: "0 \<le> sc" using scale_range(1) [of miss_value] by (simp add: sc_def)
  have nn: "0 \<le> sc * p1 * (1 - p2)" using p1 p2 sc by simp
  have eq: "ndt_delta_p c sensor sample mean miss_value sigma = 1 / 2 - sc * p1 * (1 - p2)"
    unfolding ndt_delta_p_def Let_def sc_def p1_def p2_def u_def w_def x_def by (rule refl)
  show ?thesis unfolding eq using nn by linarith
qed

lemma ndt_probability_update_finite:
  assumes len: "length c = 6" and diag: "c ! 0 \<noteq> 0" "c ! 2 \<noteq> 0" "c ! 5 \<noteq> 0"
    and ray: "sample \<noteq> sensor" and noise: "sigma \<noteq> 0"
  shows "ndt_probability_update (map Fin c) (fvec sensor) (fvec sample) (fvec mean)
           (Fin miss_value) (Fin sigma)
         = (Fin (ndt_delta_p c sensor sample mean miss_value sigma),
            fvec (ndt_x_ml c sensor sample mean))"
proof -
  define d where "d = rsub sample sensor"
  define l where "l = rscale (1 / sqrt (rdot d d)) d"
  define a where "a = lower_solve c l"
  define b where "b = lower_solve c (rsub sensor mean)"
  define t where "t = - (rdot a b) / (rdot a a)"
  define x where "x = radd (rscale t l) sensor"
  define u where "u = lower_solve c (rsub x mean)"
  define w where "w = rsub x sample"
  have d0: "d \<noteq> (0, 0, 0)" using ray by (simp add: d_def rsub_eq_zero)
  have dd: "0 < rdot d d" using d0 by (rule rdot_self_pos)
  have l0: "l \<noteq> (0, 0, 0)" unfolding l_def using dd d0 by (intro rscale_nonzero) simp_all
  have a0: "a \<noteq> (0, 0, 0)" unfolding a_def using diag l0 by (rule lower_solve_nonzero)
  have aa: "rdot a a \<noteq> 0" using rdot_self_pos [OF a0] by simp
  have h1: "vsub (fvec sample) (fvec sensor) = fvec d" by (simp add: vsub_fvec d_def)
  have h2: "covnormalize (fvec d) = fvec l" using d0 by (simp add: covnormalize_fvec l_def)
  have h3: "solveTriangular (map Fin c) (fvec l) = fvec a"
    using len diag by (simp add: solveTriangular_fvec a_def)
  have h4: "solveTriangular (map Fin c) (vsub (fvec sensor) (fvec mean)) = fvec b"
    using len diag by (simp add: solveTriangular_fvec vsub_fvec b_def)
  have h5: "fdiv (fneg (covdot (fvec a) (fvec b))) (covdot (fvec a) (fvec a)) = Fin t"
    using aa by (simp add: covdot_fvec t_def)
  have h6: "vadd (vscale (fvec l) (Fin t)) (fvec sensor) = fvec x"
    by (simp add: vscale_fvec vadd_fvec x_def)
  have h7: "fexp (fmul (Fin (- 0.5))
              (covlength2 (solveTriangular (map Fin c) (vsub (fvec x) (fvec mean)))))
            = Fin (exp (- (1 / 2) * rdot u u))"
    using len diag by (simp add: solveTriangular_fvec vsub_fvec covlength2_def covdot_fvec u_def)
  have h8: "fexp (fdiv (fmul (Fin (- 0.5)) (covlength2 (vsub (fvec x) (fvec sample))))
                       (fmul (Fin sigma) (Fin sigma)))
            = Fin (exp (- (1 / 2) * rdot w w / (sigma * sigma)))"
    using noise by (simp add: vsub_fvec covlength2_def covdot_fvec w_def)
  have h9: "fsub (Fin 1) (fdiv (Fin 1) (fadd (Fin 1) (fexp (Fin miss_value))))
            = Fin (1 - 1 / (1 + exp miss_value))"
  proof -
    have "1 + exp miss_value \<noteq> 0" using exp_gt_zero [of miss_value] by linarith
    then show ?thesis by (simp add: fsub_def)
  qed
  have xm: "ndt_x_ml c sensor sample mean = x"
    by (simp add: ndt_x_ml_def ndt_ray_def Let_def x_def t_def a_def b_def l_def d_def)
  have dp: "ndt_delta_p c sensor sample mean miss_value sigma
            = 1 / 2 - (1 - 1 / (1 + exp miss_value)) * exp (- (1 / 2) * rdot u u)
                * (1 - exp (- (1 / 2) * rdot w w / (sigma * sigma)))"
    by (simp add: ndt_delta_p_def Let_def xm u_def w_def)
  show ?thesis
    unfolding ndt_probability_update_def Let_def
    by (simp only: h1 h2 h3 h4 h5 h6 h7 h8 h9 xm dp)
       (simp add: fsub_def)
qed


text \<open>
  Claim C3.  For finite inputs on which the arithmetic is defined (a non-singular stored
  square root \<open>C\<close>, a sample different from the sensor position, a non-zero sensor
  noise), a miss update that reaches the covariance branch adds \<open>log (\<Delta>p / (1 - \<Delta>p))\<close>
  to the occupancy value, where \<open>\<Delta>p = 0.5 - scale \<cdot> p\<^sub>1 \<cdot> (1 - p\<^sub>2)\<close> is built from the
  maximum likelihood point \<open>x\<^sub>M\<^sub>L = sensor + t \<cdot> \<ell>\<close> as in \<open>ndt_delta_p\<close> and
  \<open>ndt_x_ml\<close>, with \<open>a = C\<^sup>-\<^sup>1 \<ell>\<close>, \<open>b = C\<^sup>-\<^sup>1 (sensor - \<mu>)\<close> and
  \<open>t = - (a \<cdot> b) / (a \<cdot> a)\<close>; the function returns \<open>x\<^sub>M\<^sub>L\<close>.
\<close>

theorem calculateMissNdt_increment:
  assumes len: "length c = 6" and diag: "c ! 0 \<noteq> 0" "c ! 2 \<noteq> 0" "c ! 5 \<noteq> 0"
    and ray: "sample \<noteq> sensor" and noise: "sigma \<noteq> 0"
    and obs: "\<not> feq (Fin v) uninitialised_value"
    and cnt: "sample_threshold \<le> point_count"
  shows "calculateMissNdt (map Fin c) (Fin v) (fvec sensor) (fvec sample) (fvec mean) point_count
           uninitialised_value (Fin miss_value) (Fin sigma) sample_threshold
         = (let dp = ndt_delta_p c sensor sample mean miss_value sigma
            in (fadd (Fin v) (flog (Fin (dp / (1 - dp)))), fvec (ndt_x_ml c sensor sample mean)))"
proof -
  define dp where "dp = ndt_delta_p c sensor sample mean miss_value sigma"
  have "dp \<le> 1 / 2" unfolding dp_def by (rule delta_p_le_half)
  then have nz: "1 - dp \<noteq> 0" by simp
  have pu: "ndt_probability_update (map Fin c) (fvec sensor) (fvec sample) (fvec mean)
              (Fin miss_value) (Fin sigma) = (Fin dp, fvec (ndt_x_ml c sensor sample mean))"
    unfolding dp_def using len diag ray noise by (rule ndt_probability_update_finite)
  have nlt: "\<not> point_count < sample_threshold" using cnt by simp
  show ?thesis
    unfolding calculateMissNdt_def Let_def pu dp_def [symmetric]
    using obs nlt nz by (simp add: fsub_def)
qed

lemma delta_p_example_half:
  "ndt_delta_p [1, 0, 1, 0, 0, 1] (0, 0, 0) (1, 0, 0) (1, 0, 0) (- 1) 1 = 1 / 2"
  by (simp add: ndt_delta_p_def ndt_x_ml_def ndt_ray_def Let_def)

lemma x_ml_example:
  "ndt_x_ml [1, 0, 1, 0, 0, 1] (0, 0, 0) (1, 0, 0) (1, 0, 0) = (1, 0, 0)"
  by (simp add: ndt_x_ml_def ndt_ray_def Let_def)

text \<open>
  A ray along the first axis through a voxel whose mean is the sample: \<open>x\<^sub>M\<^sub>L\<close> is the
  sample, \<open>p\<^sub>2 = 1\<close>, \<open>\<Delta>p = 0.5\<close> and the increment is \<open>log 1 = 0\<close>.
\<close>

theorem calculateMissNdt_increment_witness:
  "length [1, 0, 1, 0, 0, 1 :: real] = 6
   \<and> [1, 0, 1, 0, 0, 1 :: real] ! 0 \<noteq> 0 \<and> [1, 0, 1, 0, 0, 1 :: real] ! 2 \<noteq> 0
   \<and> [1, 0, 1, 0, 0, 1 :: real] ! 5 \<noteq> 0
   \<and> ((1, 0, 0) :: real vec3) \<noteq> (0, 0, 0) \<and> (1 :: real) \<noteq> 0
   \<and> \<not> feq (Fin 2) PInf \<and> (4 :: 32 word) \<le> 5
   \<and> calculateMissNdt (map Fin [1, 0, 1, 0, 0, 1]) (Fin 2) (fvec (0, 0, 0)) (fvec (1, 0, 0))
         (fvec (1, 0, 0)) 5 PInf (Fin (- 1)) (Fin 1) 4
       = (Fin 2, Fin 1, Fin 0, Fin 0)"
proof -
  have h: "length [1, 0, 1, 0, 0, 1 :: real] = 6"
    "[1, 0, 1, 0, 0, 1 :: real] ! 0 \<noteq> 0" "[1, 0, 1, 0, 0, 1 :: real] ! 2 \<noteq> 0"
    "[1, 0, 1, 0, 0, 1 :: real] ! 5 \<noteq> 0"
    "((1, 0, 0) :: real vec3) \<noteq> (0, 0, 0)" "(1 :: real) \<noteq> 0"
    "\<not> feq (Fin 2) PInf" "(4 :: 32 word) \<le> 5"
    by simp_all
  show ?thesis
    using calculateMissNdt_increment [OF h, of "(1, 0, 0)" "- 1"] h
    by (simp add: delta_p_example_half x_ml_example)
qed

text \<open>
  The standard rule of the miss update: an unobserved voxel takes the miss value, and an
  observed voxel with fewer samples than the sample threshold has the miss value added.
\<close>

lemma calculateMissNdt_few_samples:
  assumes "\<not> feq voxel_value uninitialised_value" "point_count < sample_threshold"
  shows "calculateMissNdt cov_voxel voxel_value sensor sample voxel_mean point_count
           uninitialised_value miss_value sensor_noise sample_threshold
         = (fadd voxel_value miss_value, voxel_mean)"
  using assms by (simp add: calculateMissNdt_def)

text \<open>
  Claim C2.  A free voxel is to follow the standard rule whatever its sample count.  The
  comments of the function say as much: the direct adjustment is headed
  \<open>Direct value adjustment if not occupied or insufficient samples\<close> and
  \<open>Re-enforcement of free voxel or too few points\<close>, the covariance branch
  \<open>Update of an occupied voxel\<close>.  The function tests the sample count only.  A voxel with
  the occupancy value \<open>-1\<close>, free for the occupancy threshold 0, and 5 samples against a
  sample threshold of 4 takes the covariance branch: its value stays \<open>-1\<close>, where the
  standard rule gives \<open>-2\<close>.
\<close>

theorem calculateMissNdt_free_voxel_not_standard:
  "flt (Fin (- 1)) (Fin 0)
   \<and> fst (calculateMissNdt [Fin 1, Fin 0, Fin 1, Fin 0, Fin 0, Fin 1] (Fin (- 1))
            (Fin 0, Fin 0, Fin 0) (Fin 1, Fin 0, Fin 0) (Fin 1, Fin 0, Fin 0) 5 PInf
            (Fin (- 1)) (Fin 1) 4) = Fin (- 1)
   \<and> Fin (- 1) \<noteq> fadd (Fin (- 1)) (Fin (- 1))"
proof -
  have pu: "ndt_probability_update (map Fin [1, 0, 1, 0, 0, 1]) (fvec (0, 0, 0)) (fvec (1, 0, 0))
              (fvec (1, 0, 0)) (Fin (- 1)) (Fin 1)
            = (Fin (1 / 2), fvec (1, 0, 0))"
    using ndt_probability_update_finite [of "[1, 0, 1, 0, 0, 1]" "(1, 0, 0)" "(0, 0, 0)" 1
        "(1, 0, 0)" "- 1"]
    by (simp add: delta_p_example_half x_ml_example)
  show ?thesis
    using pu by (simp add: calculateMissNdt_def Let_def fsub_def)
qed

section \<open>Loading a version 0 chunk\<close>

lemma header_inv_step:
  assumes "header_inv chunk0 stream0 k st"
    and "\<And>bs c. occupancy_block (store bs c) = occupancy_block c"
    and "\<And>bs c. clearance_block (store bs c) = clearance_block c"
  shows "header_inv chunk0 stream0 (k + n) (read_field n store st)"
proof -
  obtain ok chunk stream where st: "st = (ok, chunk, stream)" by (cases st)
  have "(length (take n (drop k stream0)) = n \<and> k \<le> length stream0) = (k + n \<le> length stream0)"
    by auto
  then show ?thesis
    using assms by (auto simp: header_inv_def st read_field_def Let_def add.commute)
qed

lemma read_chunk_header_inv:
  "header_inv chunk stream chunk_header_size (read_chunk_header (True, chunk, stream))"
proof -
  have 0: "header_inv chunk stream 0 (True, chunk, stream)"
    by (simp add: header_inv_def)
  have "header_inv chunk stream (0 + 4 + 4 + 4 + 8 + 8 + 8 + 8)
          (read_chunk_header (True, chunk, stream))"
    unfolding read_chunk_header_def Let_def
    by (intro header_inv_step 0) simp_all
  then show ?thesis by (simp add: chunk_header_size_def)
qed

lemma len32: "LENGTH(32) = 32" by simp

lemma len64: "LENGTH(64) = 64" by simp

lemma unat_u8_bound: "unat (w :: 8 word) < 256"
  using unsigned_less [of w, where 'a = nat] by simp

lemma region_voxel_product_bound:
  "unat (vget d 0 :: 8 word) * unat (vget d 1 :: 8 word) * unat (vget d 2 :: 8 word) < 2 ^ 24"
proof -
  have b: "unat (vget d 0) \<le> 255" "unat (vget d 1) \<le> 255" "unat (vget d 2) \<le> 255"
    using unat_u8_bound [of "vget d 0"] unat_u8_bound [of "vget d 1"] unat_u8_bound [of "vget d 2"]
    by simp_all
  have "unat (vget d 0) * unat (vget d 1) \<le> 255 * 255"
    using b by (intro mult_mono) simp_all
  then have "unat (vget d 0) * unat (vget d 1) * unat (vget d 2) \<le> 255 * 255 * 255"
    using b by (intro mult_mono) simp_all
  then show ?thesis by simp
qed

lemma region_node_count_unat:
  "unat (region_node_count d) = unat (vget d 0) * unat (vget d 1) * unat (vget d 2)"
proof -
  have "unat (vget d 0) * unat (vget d 1) * unat (vget d 2) < 2 ^ 32"
    using region_voxel_product_bound [of d] by simp
  then show ?thesis
    unfolding region_node_count_def by (simp only: unat_of_nat len32 mod_less)
qed

lemma node_byte_count_unat: "unat (node_byte_count n) = 8 * unat n"
proof -
  have n: "unat n < 2 ^ 32" using unsigned_less [of n, where 'a = nat] by simp
  have u: "unat (ucast n :: 64 word) = unat n"
    using n by (simp add: unsigned_ucast_eq take_bit_nat_eq_self)
  have "unat (8 * (ucast n :: 64 word)) = (8 * unat n) mod 2 ^ 64"
    by (simp add: unat_word_ariths u)
  also have "\<dots> = 8 * unat n" using n by simp
  finally show ?thesis by (simp add: node_byte_count_def)
qed

lemma byte_count_overflows_iff:
  "byte_count_overflows n \<longleftrightarrow> 2 ^ 32 \<le> 8 * unat n"
proof -
  have "unat (ucast (ucast (node_byte_count n) :: 32 word) :: 64 word)
          = unat (take_bit 32 (node_byte_count n))"
    by (simp add: unsigned_ucast_eq)
  also have "\<dots> = take_bit 32 (unat (node_byte_count n))"
    by (simp only: unsigned_take_bit_eq)
  finally have r: "unat (ucast (ucast (node_byte_count n) :: 32 word) :: 64 word)
                   = (8 * unat n) mod 2 ^ 32"
    by (simp only: take_bit_eq_mod node_byte_count_unat)
  have "byte_count_overflows n \<longleftrightarrow>
          unat (node_byte_count n) \<noteq> unat (ucast (ucast (node_byte_count n) :: 32 word) :: 64 word)"
    unfolding byte_count_overflows_def by (simp add: word_unat_eq_iff)
  also have "\<dots> \<longleftrightarrow> 8 * unat n \<noteq> (8 * unat n) mod 2 ^ 32"
    unfolding r node_byte_count_unat ..
  also have "\<dots> \<longleftrightarrow> 2 ^ 32 \<le> 8 * unat n"
    by (metis mod_less mod_less_divisor not_le_imp_less leD zero_less_numeral zero_less_power)
  finally show ?thesis .
qed

lemma region_never_overflows: "\<not> byte_count_overflows (region_node_count d)"
  using region_voxel_product_bound [of d]
  by (simp add: byte_count_overflows_iff region_node_count_unat)


lemma deinterleave_Suc:
  "deinterleave d (Suc n) c =
     (let c' = deinterleave d n c
      in c'\<lparr>occupancy_block := (occupancy_block c')[n := float_at d (2 * n + 0)],
             clearance_block := (clearance_block c')[n := float_at d (2 * n + 1)]\<rparr>)"
  by (simp add: deinterleave_def Let_def)

lemma deinterleave_length:
  "length (occupancy_block (deinterleave d n c)) = length (occupancy_block c)"
  "length (clearance_block (deinterleave d n c)) = length (clearance_block c)"
  by (induction n) (simp_all add: deinterleave_Suc Let_def, simp_all add: deinterleave_def)

lemma deinterleave_nth:
  assumes "i < n"
  shows "i < length (occupancy_block c) \<Longrightarrow>
           occupancy_block (deinterleave d n c) ! i = float_at d (2 * i)"
    and "i < length (clearance_block c) \<Longrightarrow>
           clearance_block (deinterleave d n c) ! i = float_at d (2 * i + 1)"
  using assms
proof (induction n)
  case 0
  { case 1 then show ?case by simp }
  { case 2 then show ?case by simp }
next
  case (Suc n)
  { case 1
    then show ?case
      using Suc.IH(1) by (cases "i = n") (simp_all add: deinterleave_Suc Let_def deinterleave_length) }
  { case 2
    then show ?case
      using Suc.IH(2) by (cases "i = n") (simp_all add: deinterleave_Suc Let_def deinterleave_length) }
qed

lemma float_at_append:
  assumes "4 * j + 4 \<le> length bs"
  shows "float_at (bs @ zs) j = float_at bs j"
  using assms by (simp add: float_at_def)


lemma loadChunk_unfold:
  assumes occ: "length (occupancy_block chunk) = unat (region_node_count dims)"
    and clr: "length (clearance_block chunk) = unat (region_node_count dims)"
  obtains chunk1 where
    "occupancy_block chunk1 = occupancy_block chunk"
    "clearance_block chunk1 = clearance_block chunk"
    "loadChunk stream chunk dims =
       (if chunk_header_size \<le> length stream
        then (let N = unat (region_node_count dims);
                  got = take (8 * N) (drop chunk_header_size stream);
                  node_data = got @ replicate (8 * N - length got) 0
              in (if length got = 8 * N then kSeOk else kSeFileReadFailure,
                  deinterleave node_data N chunk1,
                  drop (8 * N) (drop chunk_header_size stream)))
        else (kSeFileReadFailure, chunk1, drop chunk_header_size stream))"
proof -
  define chunk0 where "chunk0 =
    (case coarse_clearance_block chunk of
       None \<Rightarrow> chunk
     | Some mem \<Rightarrow> chunk\<lparr>coarse_clearance_block := Some (replicate (length mem) 0)\<rparr>)"
  have c0: "occupancy_block chunk0 = occupancy_block chunk"
    "clearance_block chunk0 = clearance_block chunk"
    by (simp_all add: chunk0_def split: option.splits)
  obtain ok chunk1 stream1 where h: "read_chunk_header (True, chunk0, stream) = (ok, chunk1, stream1)"
    by (cases "read_chunk_header (True, chunk0, stream)")
  have inv: "header_inv chunk0 stream chunk_header_size (ok, chunk1, stream1)"
    using read_chunk_header_inv [of chunk0 stream] by (simp add: h)
  then have r: "ok \<longleftrightarrow> chunk_header_size \<le> length stream"
    "stream1 = drop chunk_header_size stream"
    "occupancy_block chunk1 = occupancy_block chunk" "clearance_block chunk1 = clearance_block chunk"
    by (simp_all add: header_inv_def c0)
  define N where "N = unat (region_node_count dims)"
  have N: "N < 2 ^ 24" unfolding N_def region_node_count_unat by (rule region_voxel_product_bound)
  have nbc: "unat (node_byte_count (region_node_count dims)) = 8 * N"
    by (simp add: node_byte_count_unat N_def)
  have "unat (ucast (node_byte_count (region_node_count dims)) :: 32 word)
          = take_bit 32 (unat (node_byte_count (region_node_count dims)))"
    by (simp only: unsigned_ucast_eq len32)
  also have "\<dots> = 8 * N" using N by (simp add: nbc take_bit_nat_eq_self)
  finally have wanted: "unat (ucast (node_byte_count (region_node_count dims)) :: 32 word) = 8 * N" .
  have "loadChunk stream chunk dims =
       (if chunk_header_size \<le> length stream
        then (let N = unat (region_node_count dims);
                  got = take (8 * N) (drop chunk_header_size stream);
                  node_data = got @ replicate (8 * N - length got) 0
              in (if length got = 8 * N then kSeOk else kSeFileReadFailure,
                  deinterleave node_data N chunk1,
                  drop (8 * N) (drop chunk_header_size stream)))
        else (kSeFileReadFailure, chunk1, drop chunk_header_size stream))"
    unfolding loadChunk_def chunk0_def [symmetric] Let_def h
    using r(1,2) nbc wanted
    by (simp add: region_never_overflows N_def [symmetric] del: take_eq_Nil)
  then show ?thesis using that r(3,4) by blast
qed

text \<open>
  Claim C9.  With enough bytes in the stream the load succeeds and, for every voxel index
  \<open>i\<close> of the region, the occupancy layer receives element \<open>2 i\<close> and the clearance layer
  element \<open>2 i + 1\<close> of the block of \<open>2 N\<close> values that follows the header; a stream
  that ends early gives a read failure; and the load gives a value overflow exactly when the
  guard on the byte count fires, which it does for a count \<open>n\<close> exactly when \<open>8 n\<close> does
  not fit 32 bits.  (The dimensions of a region are 8-bit values, so the count of a region
  stays below \<open>2\<^sup>2\<^sup>4\<close>: see \<open>region_never_overflows\<close>.)
\<close>

theorem loadChunk_deinterleaves:
  assumes occ: "length (occupancy_block chunk) = unat (region_node_count dims)"
    and clr: "length (clearance_block chunk) = unat (region_node_count dims)"
  shows "(chunk_header_size + 8 * unat (region_node_count dims) \<le> length stream \<longrightarrow>
            fst (loadChunk stream chunk dims) = kSeOk
            \<and> snd (snd (loadChunk stream chunk dims))
                = drop (chunk_header_size + 8 * unat (region_node_count dims)) stream
            \<and> (\<forall>i < unat (region_node_count dims).
                  occupancy_block (fst (snd (loadChunk stream chunk dims))) ! i
                    = float_at (take (8 * unat (region_node_count dims))
                                  (drop chunk_header_size stream)) (2 * i)
                  \<and> clearance_block (fst (snd (loadChunk stream chunk dims))) ! i
                    = float_at (take (8 * unat (region_node_count dims))
                                  (drop chunk_header_size stream)) (2 * i + 1)))
       \<and> (length stream < chunk_header_size + 8 * unat (region_node_count dims) \<longrightarrow>
            fst (loadChunk stream chunk dims) = kSeFileReadFailure)
       \<and> (fst (loadChunk stream chunk dims) = kSeValueOverflow
            \<longleftrightarrow> byte_count_overflows (region_node_count dims))
       \<and> (byte_count_overflows n \<longleftrightarrow> 2 ^ 32 \<le> 8 * unat n)"
proof -
  define N where "N = unat (region_node_count dims)"
  define block where "block = take (8 * N) (drop chunk_header_size stream)"
  obtain chunk1 where c1: "occupancy_block chunk1 = occupancy_block chunk"
    "clearance_block chunk1 = clearance_block chunk"
    and lc: "loadChunk stream chunk dims =
       (if chunk_header_size \<le> length stream
        then (if length block = 8 * N then kSeOk else kSeFileReadFailure,
              deinterleave (block @ replicate (8 * N - length block) 0) N chunk1,
              drop (8 * N) (drop chunk_header_size stream))
        else (kSeFileReadFailure, chunk1, drop chunk_header_size stream))"
    using loadChunk_unfold [OF occ clr, of stream]
    unfolding Let_def N_def [symmetric] block_def [symmetric] by metis
  have ok: "fst (loadChunk stream chunk dims) = kSeOk
            \<and> snd (snd (loadChunk stream chunk dims)) = drop (chunk_header_size + 8 * N) stream
            \<and> (\<forall>i < N.
                  occupancy_block (fst (snd (loadChunk stream chunk dims))) ! i = float_at block (2 * i)
                  \<and> clearance_block (fst (snd (loadChunk stream chunk dims))) ! i
                      = float_at block (2 * i + 1))"
    if enough: "chunk_header_size + 8 * N \<le> length stream"
  proof -
    have len: "length block = 8 * N" using enough by (simp add: block_def)
    have hdr: "chunk_header_size \<le> length stream" using enough by simp
    have res: "loadChunk stream chunk dims =
                 (kSeOk, deinterleave block N chunk1, drop (chunk_header_size + 8 * N) stream)"
      using hdr len by (simp add: lc add.commute)
    have "occupancy_block (deinterleave block N chunk1) ! i = float_at block (2 * i)
          \<and> clearance_block (deinterleave block N chunk1) ! i = float_at block (2 * i + 1)"
      if "i < N" for i
      using that deinterleave_nth [of i N chunk1 block] c1 occ clr by (simp add: N_def)
    then show ?thesis by (simp add: res)
  qed
  have short: "fst (loadChunk stream chunk dims) = kSeFileReadFailure"
    if "length stream < chunk_header_size + 8 * N"
  proof (cases "chunk_header_size \<le> length stream")
    case True
    then have "length block \<noteq> 8 * N" using that by (simp add: block_def)
    then show ?thesis using True by (simp add: lc)
  next
    case False
    then show ?thesis by (simp add: lc)
  qed
  have never: "fst (loadChunk stream chunk dims) \<noteq> kSeValueOverflow"
    by (simp add: lc)
  show ?thesis
    unfolding N_def [symmetric] block_def [symmetric]
    using ok short never region_never_overflows [of dims] byte_count_overflows_iff [of n]
    by blast
qed


text \<open>
  A region of \<open>1 \<times> 1 \<times> 2\<close> voxels: a complete stream, a stream cut after three bytes of
  the block, and the guard at the count \<open>2\<^sup>2\<^sup>9\<close>.
\<close>

theorem loadChunk_deinterleaves_witness:
  "length (occupancy_block example_chunk) = unat (region_node_count (1, 1, 2))
   \<and> length (clearance_block example_chunk) = unat (region_node_count (1, 1, 2))
   \<and> chunk_header_size + 8 * unat (region_node_count (1, 1, 2))
        \<le> length (replicate 44 0 @ example_block)
   \<and> fst (loadChunk (replicate 44 0 @ example_block) example_chunk (1, 1, 2)) = kSeOk
   \<and> occupancy_block (fst (snd (loadChunk (replicate 44 0 @ example_block) example_chunk (1, 1, 2))))
        ! 1 = float_at example_block 2
   \<and> clearance_block (fst (snd (loadChunk (replicate 44 0 @ example_block) example_chunk (1, 1, 2))))
        ! 1 = float_at example_block 3
   \<and> length (replicate 44 (0 :: byte) @ [1, 2, 3])
        < chunk_header_size + 8 * unat (region_node_count (1, 1, 2))
   \<and> fst (loadChunk (replicate 44 0 @ [1, 2, 3]) example_chunk (1, 1, 2)) = kSeFileReadFailure
   \<and> byte_count_overflows 536870912 \<and> (2 :: nat) ^ 32 \<le> 8 * unat (536870912 :: 32 word)"
proof -
  have n: "unat (region_node_count (1, 1, 2)) = 2"
    by (simp add: region_node_count_unat)
  have h: "length (occupancy_block example_chunk) = unat (region_node_count (1, 1, 2))"
    "length (clearance_block example_chunk) = unat (region_node_count (1, 1, 2))"
    by (simp_all add: n example_chunk_def)
  have e: "chunk_header_size + 8 * unat (region_node_count (1, 1, 2))
        \<le> length (replicate 44 0 @ example_block)"
    by (simp add: n chunk_header_size_def example_block_def)
  have b: "take (8 * 2) (drop chunk_header_size (replicate 44 0 @ example_block)) = example_block"
    by (simp add: chunk_header_size_def example_block_def)
  have s: "length (replicate 44 (0 :: byte) @ [1, 2, 3])
             < chunk_header_size + 8 * unat (region_node_count (1, 1, 2))"
    by (simp add: n chunk_header_size_def)
  have p: "(2 :: nat) ^ 32 \<le> 8 * unat (536870912 :: 32 word)" by simp
  note t1 = loadChunk_deinterleaves [OF h, of "replicate 44 0 @ example_block" 536870912]
  note t2 = loadChunk_deinterleaves [OF h, of "replicate 44 0 @ [1, 2, 3]" 536870912]
  note good = mp [OF conjunct1 [OF t1] e]
  note code = conjunct1 [OF good]
  note vals = conjunct2 [OF conjunct2 [OF good], unfolded n b, rule_format, of 1]
  note short = mp [OF conjunct1 [OF conjunct2 [OF t2]] s]
  note guard = conjunct2 [OF conjunct2 [OF conjunct2 [OF t1]]]
  have v: "occupancy_block (fst (snd (loadChunk (replicate 44 0 @ example_block)
                          example_chunk (1, 1, 2)))) ! 1 = float_at example_block 2"
    "clearance_block (fst (snd (loadChunk (replicate 44 0 @ example_block)
                          example_chunk (1, 1, 2)))) ! 1 = float_at example_block 3"
    using vals by simp_all
  have g: "byte_count_overflows 536870912" using guard p by (rule iffD2)
  show ?thesis
    using h e code v s short g p by (intro conjI)
qed

section \<open>The ground voxel of a column\<close>

lemma none_occupied_simps [simp]:
  "none_occupied m []"
  "none_occupied m (k # ks) \<longleftrightarrow> occupancyType m k \<noteq> kOccupied \<and> none_occupied m ks"
  "none_occupied m (xs @ ys) \<longleftrightarrow> none_occupied m xs \<and> none_occupied m ys"
  by (simp_all add: none_occupied_def)

lemma sourceVoxelHeight_type [simp]: "fst (sourceVoxelHeight m key) = occupancyType m key"
  by (simp add: sourceVoxelHeight_def Let_def)

lemma ground_invI:
  assumes "candidate_voxel_type st \<noteq> kNull" "pre = p1 @ [g] @ p2" "ground_key st = Some g"
    "none_occupied m p2" "column_height st = snd (sourceVoxelHeight m g)"
    "column_clearance_height st = column_height st"
  shows "ground_inv m pre st"
  using assms unfolding ground_inv_def by auto

lemma findGround_walk_result:
  assumes "ground_inv m pre st"
  shows "let st' = findGround_walk m imp ks st
         in if candidate_voxel_type st' = kNull then True
            else (\<exists>g. ground_key st' = Some g \<and>
                    (ground_clear m (pre @ ks) g (column_clearance_height st' - column_height st')
                     \<or> ground_gap m imp (pre @ ks) g
                          (column_clearance_height st' - column_height st')))"
  using assms
proof (induction ks arbitrary: pre st)
  case Nil
  then show ?case
    by (auto simp: ground_inv_def ground_clear_def Let_def split: if_splits)
next
  case (Cons key keys)
  define voxel_type where "voxel_type = occupancyType m key"
  define h where "h = snd (sourceVoxelHeight m key)"
  define cand where "cand \<longleftrightarrow> voxel_type = kOccupied \<or>
            generate_virtual_surface imp \<and>
            (last_voxel_type st = kUnobserved \<or> last_voxel_type st = kNull) \<and> voxel_type = kFree \<and>
              candidate_voxel_type st = kNull"
  have app: "pre @ key # keys = (pre @ [key]) @ keys" by simp
  show ?case
  proof (cases cand)
    case False
    then have nocc: "voxel_type \<noteq> kOccupied" by (auto simp: cand_def)
    have inv': "ground_inv m (pre @ [key]) (st\<lparr>height := h, last_voxel_type := voxel_type\<rparr>)"
    proof (cases "candidate_voxel_type st = kNull")
      case True
      then show ?thesis using Cons.prems by (simp add: ground_inv_def)
    next
      case False
      then obtain p1 g p2 where "pre = p1 @ [g] @ p2" "ground_key st = Some g" "none_occupied m p2"
        "column_height st = snd (sourceVoxelHeight m g)"
        "column_clearance_height st = column_height st"
        using Cons.prems by (auto simp: ground_inv_def)
      then show ?thesis
        using False nocc
        by (intro ground_invI [where ?p1.0 = p1 and g = g and ?p2.0 = "p2 @ [key]"])
          (simp_all add: voxel_type_def)
    qed
    have step: "findGround_walk m imp (key # keys) st
                 = findGround_walk m imp keys (st\<lparr>height := h, last_voxel_type := voxel_type\<rparr>)"
      using False by (auto simp: cand_def voxel_type_def h_def Let_def)
    show ?thesis
      unfolding step app by (rule Cons.IH [OF inv'])
  next
    case True
    show ?thesis
    proof (cases "candidate_voxel_type st = kNull")
      case cnull: True
      define st1 where "st1 = st\<lparr>height := h, ground_key := Some key, column_height := h,
                        column_clearance_height := h, candidate_voxel_type := voxel_type,
                        last_voxel_type := voxel_type\<rparr>"
      have vt: "voxel_type \<noteq> kNull" using True by (auto simp: cand_def)
      have inv': "ground_inv m (pre @ [key]) st1"
        using vt
        by (intro ground_invI [where ?p1.0 = pre and g = key and ?p2.0 = "[]"])
          (simp_all add: st1_def h_def)
      have step: "findGround_walk m imp (key # keys) st = findGround_walk m imp keys st1"
        using True cnull by (auto simp: cand_def voxel_type_def h_def Let_def st1_def)
      show ?thesis
        unfolding step app by (rule Cons.IH [OF inv'])
    next
      case cand_set: False
      then have occ: "voxel_type = kOccupied" using True by (auto simp: cand_def)
      obtain p1 g p2 where g: "pre = p1 @ [g] @ p2" "ground_key st = Some g" "none_occupied m p2"
        "column_height st = snd (sourceVoxelHeight m g)"
        using Cons.prems cand_set by (auto simp: ground_inv_def)
      show ?thesis
      proof (cases "min_clearance imp \<le> h - column_height st")
        case brk: True
        have step: "findGround_walk m imp (key # keys) st
                     = st\<lparr>height := h, column_clearance_height := h\<rparr>"
          using True cand_set brk by (auto simp: cand_def voxel_type_def h_def Let_def)
        have "pre @ key # keys = p1 @ [g] @ p2 @ [key] @ keys" using g(1) by simp
        then have "ground_gap m imp (pre @ key # keys) g (h - column_height st)"
          unfolding ground_gap_def using g(3,4) occ brk
          by (auto simp: voxel_type_def h_def)
        then show ?thesis
          unfolding step using cand_set g(2) by (simp add: Let_def)
      next
        case nobrk: False
        define st1 where "st1 = st\<lparr>height := h, column_height := h, column_clearance_height := h,
                        ground_key := Some key, candidate_voxel_type := voxel_type,
                        last_voxel_type := voxel_type\<rparr>"
        have inv': "ground_inv m (pre @ [key]) st1"
          using occ
          by (intro ground_invI [where ?p1.0 = pre and g = key and ?p2.0 = "[]"])
            (simp_all add: st1_def h_def)
        have step: "findGround_walk m imp (key # keys) st = findGround_walk m imp keys st1"
          using True cand_set nobrk by (auto simp: cand_def voxel_type_def h_def Let_def st1_def)
        show ?thesis
          unfolding step app by (rule Cons.IH [OF inv'])
      qed
    qed
  qed
qed


text \<open>
  Claim C7.  A ground voxel returned by \<open>findGround\<close> for a column either has no occupied
  voxel above it in the column, the walk having reached the bounds (the clearance is then 0,
  for no information), or the clearance written out is the gap between the height of the
  ground voxel and the height of the first occupied voxel above it, and that gap is at least
  the minimum clearance.
\<close>

theorem findGround_clearance:
  assumes "findGround m imp column = Some (gk, h, c)"
  shows "\<exists>g. gk = Some g \<and> (ground_clear m column g c \<or> ground_gap m imp column g c)"
proof -
  define st0 where "st0 = \<lparr> column_height = double_max, column_clearance_height = double_max,
      height = 0, candidate_voxel_type = kNull, last_voxel_type = kNull, ground_key = None \<rparr>"
  define st' where "st' = findGround_walk m imp column st0"
  have "ground_inv m [] st0" by (simp add: ground_inv_def st0_def)
  from findGround_walk_result [OF this, of imp column]
  have r: "candidate_voxel_type st' \<noteq> kNull \<Longrightarrow>
            \<exists>g. ground_key st' = Some g \<and>
              (ground_clear m column g (column_clearance_height st' - column_height st')
               \<or> ground_gap m imp column g (column_clearance_height st' - column_height st'))"
    by (simp add: Let_def st'_def)
  have "candidate_voxel_type st' \<noteq> kNull \<and> gk = ground_key st'
        \<and> c = column_clearance_height st' - column_height st'"
    using assms unfolding findGround_def Let_def st0_def [symmetric] st'_def [symmetric]
    by (auto split: if_splits)
  then show ?thesis using r by auto
qed

lemma example_types:
  "occupancyType example_map (example_key 0) = kOccupied"
  "occupancyType example_map (example_key 1) = kFree"
  "occupancyType example_map (example_key 2) = kOccupied"
  "occupancyType example_map (example_key 3) = kFree"
  by (simp_all add: occupancyType_def example_map_def example_key_def fge_def fne_def Let_def)

lemma example_heights:
  "snd (sourceVoxelHeight example_map (example_key 0)) = 0"
  "snd (sourceVoxelHeight example_map (example_key 1)) = 1"
  "snd (sourceVoxelHeight example_map (example_key 2)) = 2"
  "snd (sourceVoxelHeight example_map (example_key 3)) = 3"
  by (simp_all add: sourceVoxelHeight_def example_map_def example_key_def Let_def)

lemma example_findGround:
  "findGround example_map example_detail [example_key 0, example_key 1, example_key 2, example_key 3]
     = Some (Some (example_key 0), 2, 2)"
  by (simp add: findGround_def example_types example_heights example_detail_def Let_def)

text \<open>
  The column of the example map with a minimum clearance of 2: the voxel at height 0 is the
  ground and the occupied voxel at height 2 gives the clearance 2.
\<close>

theorem findGround_clearance_witness:
  "findGround example_map example_detail
      [example_key 0, example_key 1, example_key 2, example_key 3]
     = Some (Some (example_key 0), 2, 2)
   \<and> (ground_clear example_map [example_key 0, example_key 1, example_key 2, example_key 3]
         (example_key 0) 2
      \<or> ground_gap example_map example_detail
           [example_key 0, example_key 1, example_key 2, example_key 3] (example_key 0) 2)"
  using findGround_clearance [OF example_findGround] example_findGround by simp

section \<open>The supporting voxel of a column\<close>

text \<open>
  Claim C6, as the code supports it.  When both column searches return a candidate, the
  selection is \<open>preferred_candidate\<close>: real over virtual, of two virtual candidates the
  lower, of two real candidates the lower unless the upper is within the permissive
  clearance, and then the one that took fewer search steps.  With \<open>promote_virtual_below\<close>
  a virtual candidate below counts as a real one in this selection.
\<close>

theorem findNearestSupportingVoxel_selection:
  assumes down: "findNearestSupportingVoxel2 m seed_key (if 0 \<le> up_axis then min_key else max_key)
                   (nat (if 0 \<le> up_axis then up_axis else - up_axis - 1)) 0 False
                   allow_virtual_surface (- 1) = Some (below_key, offset_below, virtual_below)"
    and up: "findNearestSupportingVoxel2 m seed_key (if 0 \<le> up_axis then max_key else min_key)
                   (nat (if 0 \<le> up_axis then up_axis else - up_axis - 1)) voxel_ceiling True
                   allow_virtual_surface (- 1) = Some (above_key, offset_above, virtual_above)"
    and have_below: "0 \<le> offset_below" and have_above: "0 \<le> offset_above"
  shows "findNearestSupportingVoxel m seed_key up_axis min_key max_key voxel_ceiling
           clearance_voxel_count_permissive allow_virtual_surface promote
         = Some (preferred_candidate below_key offset_below (virtual_below \<and> \<not> promote)
                   above_key offset_above virtual_above clearance_voxel_count_permissive)"
  unfolding findNearestSupportingVoxel_def Let_def down up
  using have_below have_above by (auto simp: preferred_candidate_def)

lemma loop_unfold:
  "findNearestSupportingVoxel2_loop m a s vr u v st = 
     (if \<not> search_i st < vr then Some (None, st)
      else
        let st = st\<lparr>search_offset := search_i st + (if u then 1 else 0)\<rparr>;
            chunk = chunks m (regionKey (current_key st));
            occupancy = (case chunk of None \<Rightarrow> unobserved_value m
                                     | Some layer \<Rightarrow> layer (localKey (current_key st)));
            occupied = (fge occupancy (occupancy_threshold m) \<and> fne occupancy (unobserved_value m));
            free = flt occupancy (occupancy_threshold m)
        in if occupied then Some (Some (current_key st), st)
           else
             let st = st\<lparr>best_virtual :=
                          (if v \<and> u \<and> free \<and> last_unknown st \<and>
                              best_virtual st = None
                           then Some (current_key st) else best_virtual st)\<rparr>;
                 st = st\<lparr>best_virtual :=
                          (if v \<and> \<not> u \<and> last_free st \<and> \<not> free
                           then last_key st else best_virtual st)\<rparr>;
                 st = st\<lparr>last_unknown := (\<not> occupied \<and> \<not> free), last_free := free,
                          last_key := Some (current_key st)\<rparr>;
                 local = uint (vget (localKey (current_key st)) a);
                 next_step = (if chunk = None
                              then (if 0 < s
                                    then vget (region_voxel_dimensions m) a - local
                                    else - (1 + local))
                              else s);
                 skipped = (if chunk = None then \<bar>next_step\<bar> - 1 else 0)
             in if skipped < 0 then None
                else (case moveKeyAlongAxis (current_key st) a next_step
                             (region_voxel_dimensions m) of
                        None \<Rightarrow> None
                      | Some key \<Rightarrow>
                          findNearestSupportingVoxel2_loop m a s vr u v
                            (st\<lparr>current_key := key, search_i := search_i st + skipped + 1\<rparr>)))"
  by (rule findNearestSupportingVoxel2_loop.simps)


lemma example_down:
  "findNearestSupportingVoxel2 example_map (example_key 1)
      \<lparr> regionKey = (0, 0, - 1), localKey = (0, 0, 2) \<rparr> 2 0 False False (- 1)
     = Some (Some (example_key 0), 1, False)"
  apply (simp add: findNearestSupportingVoxel2_def rangeBetween_def example_map_def Let_def example_key_def)
  apply (subst loop_unfold)
  apply (simp add: example_key_def fge_def fne_def Let_def moveKeyAlongAxis_def int_ok_def signed_divide_int_def
      signed_modulo_int_def)
  apply (subst loop_unfold)
  apply (simp add: example_key_def fge_def fne_def Let_def)
  done


lemma example_up:
  "findNearestSupportingVoxel2 example_map (example_key 1) (example_key 3) 2 0 True False (- 1)
     = Some (Some (example_key 2), 2, False)"
  apply (simp add: findNearestSupportingVoxel2_def rangeBetween_def example_map_def Let_def example_key_def)
  apply (subst loop_unfold)
  apply (simp add: example_key_def fge_def fne_def Let_def moveKeyAlongAxis_def int_ok_def signed_divide_int_def
      signed_modulo_int_def)
  apply (subst loop_unfold)
  apply (simp add: example_key_def fge_def fne_def Let_def)
  done

text \<open>
  The example map, searched from the free voxel at height 1: the occupied voxel below is one
  step away, the occupied voxel above two, and the lower one is selected.
\<close>

theorem findNearestSupportingVoxel_selection_witness:
  "findNearestSupportingVoxel2 example_map (example_key 1)
      \<lparr> regionKey = (0, 0, - 1), localKey = (0, 0, 2) \<rparr> 2 0 False False (- 1)
     = Some (Some (example_key 0), 1, False)
   \<and> findNearestSupportingVoxel2 example_map (example_key 1) (example_key 3) 2 0 True False (- 1)
     = Some (Some (example_key 2), 2, False)
   \<and> findNearestSupportingVoxel example_map (example_key 1) 2
        \<lparr> regionKey = (0, 0, - 1), localKey = (0, 0, 2) \<rparr> (example_key 3) 0 1 False False
     = Some (Some (example_key 0))"
  using findNearestSupportingVoxel_selection [of example_map "example_key 1" 2
      "\<lparr> regionKey = (0, 0, - 1), localKey = (0, 0, 2) \<rparr>" "example_key 3" False
      "Some (example_key 0)" 1 False 0 "Some (example_key 2)" 2 False 1 False]
    example_down example_up
  by (simp add: preferred_candidate_def)

lemma virtual_down:
  "findNearestSupportingVoxel2 virtual_map (example_key 3)
      \<lparr> regionKey = (0, 0, - 1), localKey = (0, 0, 6) \<rparr> 2 0 False True (- 1)
     = Some (Some (example_key 1), 3, True)"
  apply (simp add: findNearestSupportingVoxel2_def rangeBetween_def virtual_map_def Let_def example_key_def)
  apply (subst loop_unfold)
  apply (simp add: example_key_def fge_def fne_def Let_def moveKeyAlongAxis_def int_ok_def signed_divide_int_def
      signed_modulo_int_def)
  apply (subst loop_unfold)
  apply (simp add: example_key_def fge_def fne_def Let_def moveKeyAlongAxis_def int_ok_def signed_divide_int_def
      signed_modulo_int_def)
  apply (subst loop_unfold)
  apply (simp add: example_key_def fge_def fne_def Let_def moveKeyAlongAxis_def int_ok_def signed_divide_int_def
      signed_modulo_int_def)
  apply (subst loop_unfold)
  apply (simp add: example_key_def fge_def fne_def Let_def moveKeyAlongAxis_def int_ok_def signed_divide_int_def
      signed_modulo_int_def)
  apply (subst loop_unfold)
  apply (simp add: example_key_def fge_def fne_def Let_def)
  done

lemma virtual_up:
  "findNearestSupportingVoxel2 virtual_map (example_key 3) (example_key 7) 2 0 True True (- 1)
     = Some (Some (example_key 4), 2, False)"
  apply (simp add: findNearestSupportingVoxel2_def rangeBetween_def virtual_map_def Let_def example_key_def)
  apply (subst loop_unfold)
  apply (simp add: example_key_def fge_def fne_def Let_def moveKeyAlongAxis_def int_ok_def signed_divide_int_def
      signed_modulo_int_def)
  apply (subst loop_unfold)
  apply (simp add: example_key_def fge_def fne_def Let_def)
  done

text \<open>
  The claim as stated prefers a virtual candidate below to a real candidate above whenever
  \<open>promote_virtual_below\<close> is set.  In the second map, searched from the free voxel at height
  3 with a permissive clearance of 10 voxels, the virtual candidate below (height 1, offset 3)
  loses to the occupied voxel above (height 4, offset 2): promoted, it counts as real, the
  upper candidate is within the clearance and took fewer steps.
\<close>

theorem findNearestSupportingVoxel_promoted_counterexample:
  "findNearestSupportingVoxel2 virtual_map (example_key 3)
      \<lparr> regionKey = (0, 0, - 1), localKey = (0, 0, 6) \<rparr> 2 0 False True (- 1)
     = Some (Some (example_key 1), 3, True)
   \<and> findNearestSupportingVoxel2 virtual_map (example_key 3) (example_key 7) 2 0 True True (- 1)
     = Some (Some (example_key 4), 2, False)
   \<and> findNearestSupportingVoxel virtual_map (example_key 3) 2
        \<lparr> regionKey = (0, 0, - 1), localKey = (0, 0, 6) \<rparr> (example_key 7) 0 10 True True
     = Some (Some (example_key 4))
   \<and> example_key 4 \<noteq> example_key 1"
  by (simp add: virtual_down virtual_up findNearestSupportingVoxel_def Let_def)
     (simp add: example_key_def)

section \<open>The occupancy layer of the heightmap\<close>

text \<open>
  The invariant of the walk over the columns: every voxel of every region of the heightmap
  is as cleared or was written for the ground voxel of a column already visited.
\<close>

lemma written_by_append:
  "written_by b (pre @ ks) k t \<longleftrightarrow> written_by b pre k t \<or> written_by b ks k t"
  by (simp add: written_by_def)

lemma surface_voxel_ok_mono:
  "surface_voxel_ok b pre k v \<Longrightarrow> surface_voxel_ok b (pre @ ks) k v"
  by (auto simp: surface_voxel_ok_def written_by_append)

lemma surface_voxel_ok_clear: "surface_voxel_ok b keys k (unobserved_value (src_map b))"
  by (simp add: surface_voxel_ok_def)

lemma heightmap_okD:
  assumes "heightmap_ok b keys hm" "hm r = Some layer"
  shows "surface_voxel_ok b keys \<lparr> regionKey = r, localKey = l \<rparr> (layer l)"
proof -
  from assms(1) have "case hm r of None \<Rightarrow> True
      | Some layer \<Rightarrow> surface_voxel_ok b keys \<lparr> regionKey = r, localKey = l \<rparr> (layer l)"
    unfolding heightmap_ok_def by blast
  then show ?thesis by (simp add: assms(2))
qed

lemma heightmap_okI:
  assumes "\<And>r l layer. hm r = Some layer \<Longrightarrow>
             surface_voxel_ok b keys \<lparr> regionKey = r, localKey = l \<rparr> (layer l)"
  shows "heightmap_ok b keys hm"
  unfolding heightmap_ok_def using assms by (simp split: option.splits)

lemma heightmap_ok_mono:
  assumes "heightmap_ok b pre hm"
  shows "heightmap_ok b (pre @ ks) hm"
  by (rule heightmap_okI) (rule surface_voxel_ok_mono, rule heightmap_okD [OF assms])

lemma heightmap_ok_write:
  assumes ok: "heightmap_ok b keys hm"
    and v: "surface_voxel_ok b keys key v"
  shows "heightmap_ok b keys (write_occupancy (unobserved_value (src_map b)) hm key v)"
proof (rule heightmap_okI)
  fix r l layer
  assume w: "write_occupancy (unobserved_value (src_map b)) hm key v r = Some layer"
  have key: "\<lparr> regionKey = regionKey key, localKey = localKey key \<rparr> = key" by simp
  show "surface_voxel_ok b keys \<lparr> regionKey = r, localKey = l \<rparr> (layer l)"
  proof (cases "r = regionKey key")
    case False
    then have "hm r = Some layer" using w by (simp add: write_occupancy_def)
    then show ?thesis using ok by (rule heightmap_okD [rotated])
  next
    case r: True
    show ?thesis
    proof (cases "l = localKey key")
      case True
      have lv: "layer (localKey key) = v"
        using w r by (auto simp: write_occupancy_def split: option.splits)
      show ?thesis unfolding r True lv key by (rule v)
    next
      case False
      show ?thesis
      proof (cases "hm r")
        case None
        then have "layer l = unobserved_value (src_map b)"
          using w r False by (auto simp: write_occupancy_def)
        then show ?thesis by (simp add: surface_voxel_ok_clear)
      next
        case (Some old)
        then have "layer l = old l"
          using w r False by (auto simp: write_occupancy_def)
        then show ?thesis using heightmap_okD [OF ok Some, of l] by simp
      qed
    qed
  qed
qed

lemma written_by_last:
  assumes "column_ground b walk_key = Some (Some g)" "occupancyType (src_map b) g = t"
  shows "written_by b (pre @ [walk_key]) (heightmap_key b g) t"
  using assms by (simp add: written_by_def)

lemma visit_column_ok:
  assumes ok: "heightmap_ok b pre hm"
    and visit: "visit_column b walk_key (hm, c) = Some (hm', c')"
  shows "heightmap_ok b (pre @ [walk_key]) hm'"
proof -
  have ok': "heightmap_ok b (pre @ [walk_key]) hm" using ok by (rule heightmap_ok_mono)
  obtain ground where cg: "column_ground b walk_key = Some ground"
    using visit by (auto simp: visit_column_def split: option.splits)
  show ?thesis
  proof (cases ground)
    case None
    then have "hm' = hm"
      using visit cg by (auto simp: visit_column_def Let_def split: if_splits)
    then show ?thesis using ok' by simp
  next
    case (Some g)
    define t where "t = occupancyType (src_map b) g"
    have wb: "written_by b (pre @ [walk_key]) (heightmap_key b g) t"
      using cg Some by (intro written_by_last) (simp_all add: t_def)
    consider (occ) "t = kOccupied"
      | (virt) "t = kFree" "generate_virtual_surface (detail b)"
      | (skip) "t \<noteq> kOccupied" "t = kFree \<longrightarrow> \<not> generate_virtual_surface (detail b)"
      by blast
    then show ?thesis
    proof cases
      case occ
      have "hm' = write_occupancy (unobserved_value (src_map b)) hm (heightmap_key b g)
                    kHeightmapSurfaceValue"
        using visit cg Some occ by (simp add: visit_column_def Let_def t_def)
      moreover have "surface_voxel_ok b (pre @ [walk_key]) (heightmap_key b g) kHeightmapSurfaceValue"
        using wb occ by (simp add: surface_voxel_ok_def)
      ultimately show ?thesis using ok' by (simp add: heightmap_ok_write)
    next
      case virt
      have "hm' = write_occupancy (unobserved_value (src_map b)) hm (heightmap_key b g)
                    kHeightmapVirtualSurfaceValue"
        using visit cg Some virt by (simp add: visit_column_def Let_def t_def)
      moreover have "surface_voxel_ok b (pre @ [walk_key]) (heightmap_key b g)
                       kHeightmapVirtualSurfaceValue"
        using wb virt by (simp add: surface_voxel_ok_def)
      ultimately show ?thesis using ok' by (simp add: heightmap_ok_write)
    next
      case skip
      then have "hm' = hm"
        using visit cg Some
        by (cases t) (auto simp: visit_column_def Let_def t_def split: if_splits)
      then show ?thesis using ok' by simp
    qed
  qed
qed

lemma buildHeightmapT_walk_ok:
  assumes "heightmap_ok b pre hm"
    and "buildHeightmapT_walk b ks (hm, c) = Some (hm', c')"
  shows "heightmap_ok b (pre @ ks) hm'"
  using assms
proof (induction ks arbitrary: pre hm c)
  case Nil
  then show ?case by simp
next
  case (Cons k ks)
  from Cons.prems(2) obtain hm1 c1 where v: "visit_column b k (hm, c) = Some (hm1, c1)"
    and w: "buildHeightmapT_walk b ks (hm1, c1) = Some (hm', c')"
    by (auto split: option.splits)
  have "heightmap_ok b (pre @ [k]) hm1" using Cons.prems(1) v by (rule visit_column_ok)
  from Cons.IH [OF this w] show ?case by simp
qed

text \<open>
  Claim C8.  When \<open>buildHeightmapT\<close> returns, every voxel of every region of the occupancy
  layer of the heightmap holds the surface value 1, the virtual surface value -1, the
  vacant value 0 or the value of an unobserved voxel.  More precisely the voxel holds the
  cleared (unobserved) value, or 1 and the ground voxel of a visited column that maps to it
  is occupied, or -1 with virtual surfaces generated and the ground voxel of a visited
  column that maps to it is free; the build itself never writes the vacant value.
\<close>

theorem buildHeightmapT_surface_values:
  assumes build: "buildHeightmapT b walk = Some (hm, populated)"
    and region: "hm r = Some layer"
  shows "surface_voxel_ok b walk \<lparr> regionKey = r, localKey = l \<rparr> (layer l)
       \<and> layer l \<in> {kHeightmapSurfaceValue, kHeightmapVirtualSurfaceValue, kHeightmapVacantValue,
                     unobserved_value (src_map b)}"
proof -
  obtain c where w: "buildHeightmapT_walk b walk (\<lambda>r. None, 0) = Some (hm, c)"
    using build by (auto simp: buildHeightmapT_def split: option.splits)
  have "heightmap_ok b [] (\<lambda>r. None)" by (simp add: heightmap_ok_def)
  from buildHeightmapT_walk_ok [OF this w] have "heightmap_ok b walk hm" by simp
  then have s: "surface_voxel_ok b walk \<lparr> regionKey = r, localKey = l \<rparr> (layer l)"
    using region by (rule heightmap_okD)
  then show ?thesis by (auto simp: surface_voxel_ok_def)
qed


lemma example_nearest:
  "findNearestSupportingVoxel example_map (example_key 1) 2
      \<lparr> regionKey = (0, 0, - 1), localKey = (0, 0, 2) \<rparr> (example_key 3) 0 1 False False
     = Some (Some (example_key 0))"
  by (simp add: findNearestSupportingVoxel_def example_down example_up Let_def)

lemma example_column_ground:
  "column_ground example_build (example_key 1) = Some (Some (example_key 0))"
  by (simp add: column_ground_def example_build_def example_detail_def example_nearest)
     (simp add: example_findGround [unfolded example_detail_def])

lemma example_heightmap_key:
  "heightmap_key example_build (example_key 0) = example_key 0"
  by (simp add: example_build_def example_key_def)

lemma example_unobserved: "unobserved_value (src_map example_build) = PInf"
  by (simp add: example_build_def example_map_def)

lemma example_visit_column:
  "visit_column example_build (example_key 1) (hm, c)
     = Some (write_occupancy PInf hm (example_key 0) kHeightmapSurfaceValue, c + 1)"
  by (simp add: visit_column_def example_column_ground example_heightmap_key example_unobserved
      Let_def)
     (simp add: example_build_def example_types)

lemma example_buildHeightmapT:
  "buildHeightmapT example_build [example_key 1]
     = Some (write_occupancy PInf (\<lambda>r. None) (example_key 0) kHeightmapSurfaceValue, True)"
  by (simp add: buildHeightmapT_def example_visit_column)

lemma example_layer:
  "write_occupancy PInf (\<lambda>r. None) (example_key 0) kHeightmapSurfaceValue (0, 0, 0)
     = Some ((\<lambda>l. PInf)((0, 0, 0) := kHeightmapSurfaceValue))"
  by (simp add: write_occupancy_def example_key_def)

text \<open>
  The build of the example map from the walk key at height 1: the ground of the column is
  the occupied voxel at height 0, its heightmap voxel holds the surface value and the other
  voxels of the region are as cleared.
\<close>

theorem buildHeightmapT_surface_values_witness:
  "buildHeightmapT example_build [example_key 1]
     = Some (write_occupancy PInf (\<lambda>r. None) (example_key 0) kHeightmapSurfaceValue, True)
   \<and> write_occupancy PInf (\<lambda>r. None) (example_key 0) kHeightmapSurfaceValue (0, 0, 0)
     = Some ((\<lambda>l. PInf)((0, 0, 0) := kHeightmapSurfaceValue))
   \<and> surface_voxel_ok example_build [example_key 1] (example_key 0) kHeightmapSurfaceValue
   \<and> surface_voxel_ok example_build [example_key 1] (example_key 1) PInf"
  using buildHeightmapT_surface_values [OF example_buildHeightmapT example_layer, of "(0, 0, 0)"]
    buildHeightmapT_surface_values [OF example_buildHeightmapT example_layer, of "(0, 0, 1)"]
    example_buildHeightmapT example_layer
  by (simp add: example_key_def)

section \<open>Rounding and the miss update\<close>

text \<open>
  Three facts about rounding to nearest: a value with at most \<open>p\<close> significant bits and an
  exponent in range is kept, a \<open>double\<close> just below one is rounded to one, and a positive
  \<open>double\<close> below half of the least subnormal number is rounded to zero.
\<close>

lemma round_half_even_int: "round_half_even (of_int m) = m"
  by (simp add: round_half_even_def)

lemma round_half_even_down:
  assumes "\<lfloor>z\<rfloor> = f" "z - of_int f < 1 / 2"
  shows "round_half_even z = f"
  using assms by (simp add: round_half_even_def Let_def)

lemma round_half_even_up:
  assumes "\<lfloor>z\<rfloor> = f" "1 / 2 < z - of_int f"
  shows "round_half_even z = f + 1"
  using assms by (simp add: round_half_even_def Let_def)

lemma ieee_round_exact:
  assumes m: "\<bar>m\<bar> < 2 ^ nat p" and p: "1 \<le> p" "p \<le> emax"
    and j: "int j \<le> emax - 2 + (p - 1)"
  shows "ieee_round p emax (of_int m / 2 ^ j) = Fin (of_int m / 2 ^ j)"
proof (cases "m = 0")
  case True
  then show ?thesis by (simp add: ieee_round_def)
next
  case False
  define x :: real where "x = of_int m / 2 ^ j"
  define e where "e = max \<lfloor>log 2 \<bar>x\<bar>\<rfloor> (2 - emax) - (p - 1)"
  have x0: "x \<noteq> 0" "0 < \<bar>x\<bar>" using False by (simp_all add: x_def)
  have mp: "\<bar>real_of_int m\<bar> < 2 powr of_int p"
  proof -
    have "real_of_int \<bar>m\<bar> < real_of_int (2 ^ nat p)" using m by (simp only: of_int_less_iff)
    then show ?thesis using p by (simp add: powr_real_of_int)
  qed
  have ax: "\<bar>x\<bar> = \<bar>real_of_int m\<bar> / 2 ^ j" by (simp add: x_def)
  have pj: "(2 :: real) powr (of_int p - real j) = 2 powr of_int p / 2 ^ j"
    by (simp add: powr_diff powr_realpow)
  have "\<bar>x\<bar> < 2 powr (of_int p - real j)"
    unfolding ax pj using mp by (simp add: divide_strict_right_mono)
  then have "log 2 \<bar>x\<bar> < of_int p - real j" using x0 by (simp add: log_less_iff)
  then have "real_of_int \<lfloor>log 2 \<bar>x\<bar>\<rfloor> < real_of_int (p - int j)" 
    using of_int_floor_le [of "log 2 \<bar>x\<bar>"] by (simp only: of_int_diff of_int_of_nat_eq)
  then have n: "\<lfloor>log 2 \<bar>x\<bar>\<rfloor> < p - int j" by (simp only: of_int_less_iff)
  have ej: "e \<le> - int j" unfolding e_def using n j by simp
  define d where "d = nat (- int j - e)"
  have e_eq: "e = - int j - int d" using ej by (simp add: d_def)
  have pe: "(2 :: real) powr of_int e = 1 / (2 ^ j * 2 ^ d)"
    unfolding e_eq by (simp add: powr_diff powr_minus powr_realpow field_simps)
  have q: "x / 2 powr of_int e = of_int (m * 2 ^ d)"
    unfolding pe x_def by simp
  have y: "of_int (round_half_even (x / 2 powr of_int e)) * 2 powr of_int e = x"
    unfolding q round_half_even_int unfolding pe x_def by simp
  have "\<bar>x\<bar> \<le> \<bar>real_of_int m\<bar>"
    unfolding ax by (simp add: divide_le_eq mult_le_cancel_left1)
  also have "\<dots> < 2 powr of_int p" by (rule mp)
  also have "\<dots> \<le> 2 powr of_int emax" using p by simp
  finally have big: "\<not> 2 powr of_int emax \<le> \<bar>x\<bar>" by simp
  show ?thesis
    unfolding x_def [symmetric]
    by (simp only: ieee_round_def x0 if_False Let_def e_def [symmetric] y big)
qed

lemma ieee_round_at:
  assumes "x \<noteq> 0"
    and "max \<lfloor>log 2 \<bar>x\<bar>\<rfloor> (2 - emax) - (p - 1) = e"
    and "round_half_even (x / 2 powr of_int e) = m"
    and "\<bar>real_of_int m * 2 powr of_int e\<bar> < 2 powr of_int emax"
  shows "ieee_round p emax x = Fin (of_int m * 2 powr of_int e)"
  unfolding ieee_round_def Let_def assms(2) assms(3) using assms(1,4) by simp

lemma ieee_round_below_one:
  assumes "1 - 1 / 2 ^ 54 < x" "x < 1"
  shows "ieee_round 53 1024 x = Fin 1"
proof -
  have x0: "0 < x" "x \<noteq> 0" "\<bar>x\<bar> = x" using assms(1) by simp_all
  have half: "1 / 2 \<le> x" using assms(1) by simp
  have "\<lfloor>log 2 x\<rfloor> = - 1"
    using x0 half assms(2) by (simp add: floor_log_eq_powr_iff powr_minus)
  then have e: "max \<lfloor>log 2 \<bar>x\<bar>\<rfloor> (2 - 1024) - (53 - 1) = - 53" by (simp add: x0)
  have pe: "(2 :: real) powr of_int (- 53) = 1 / 2 ^ 53"
    by (simp add: powr_minus powr_realpow inverse_eq_divide)
  have q: "x / (1 / 2 ^ 53) = x * 2 ^ 53" by simp
  have lo: "2 ^ 53 - 1 / 2 < x * 2 ^ 53" using assms(1) by (simp add: field_simps)
  have hi: "x * 2 ^ 53 < 2 ^ 53" using assms(2) by simp
  have fl: "\<lfloor>x * 2 ^ 53\<rfloor> = 2 ^ 53 - 1"
    using lo hi by (intro floor_unique) simp_all
  have "1 / 2 < x * 2 ^ 53 - real_of_int (2 ^ 53 - 1)"
    using lo by (simp only: of_int_diff of_int_power of_int_numeral of_int_1)
  then have "round_half_even (x * 2 ^ 53) = 2 ^ 53 - 1 + 1"
    using fl by (intro round_half_even_up)
  then have "round_half_even (x * 2 ^ 53) = 2 ^ 53" by (simp only: diff_add_cancel)
  then have r: "round_half_even (x / 2 powr of_int (- 53)) = 2 ^ 53" by (simp only: pe q)
  have y: "real_of_int (2 ^ 53) * 2 powr of_int (- 53) = 1" by (simp only: pe) simp
  have "ieee_round 53 1024 x = Fin (real_of_int (2 ^ 53) * 2 powr of_int (- 53))"
    using x0(2) e r by (rule ieee_round_at) (simp only: y, simp)
  then show ?thesis by (simp only: y)
qed

lemma ieee_round_underflow:
  assumes "0 < x" "x < 1 / 2 ^ 1075"
  shows "ieee_round 53 1024 x = Fin 0"
proof -
  have x0: "x \<noteq> 0" "\<bar>x\<bar> = x" using assms(1) by simp_all
  have "x < 2 powr (- 1075)" using assms(2) by (simp add: powr_minus powr_realpow inverse_eq_divide)
  then have "log 2 x < - 1075" using assms(1) by (simp add: log_less_iff)
  then have "real_of_int \<lfloor>log 2 x\<rfloor> < real_of_int (- 1075)"
    using of_int_floor_le [of "log 2 x"] by (simp only: of_int_minus of_int_numeral)
  then have "\<lfloor>log 2 x\<rfloor> < - 1075" by (simp only: of_int_less_iff)
  then have e: "max \<lfloor>log 2 \<bar>x\<bar>\<rfloor> (2 - 1024) - (53 - 1) = - 1074" by (simp add: x0)
  have pe: "(2 :: real) powr of_int (- 1074) = 1 / 2 ^ 1074"
    by (simp add: powr_minus powr_realpow inverse_eq_divide)
  have q: "x / (1 / 2 ^ 1074) = x * 2 ^ 1074" by simp
  have "x * 2 ^ 1074 < 1 / 2 ^ 1075 * 2 ^ 1074"
    using assms(2) by (simp only: mult_strict_right_mono zero_less_power zero_less_numeral)
  then have hi: "x * 2 ^ 1074 < 1 / 2" by simp
  have lo: "0 < x * 2 ^ 1074" using assms(1) by simp
  have fl: "\<lfloor>x * 2 ^ 1074\<rfloor> = 0" using lo hi by (intro floor_unique) simp_all
  have "round_half_even (x * 2 ^ 1074) = 0"
    using fl hi by (intro round_half_even_down) simp_all
  then have r: "round_half_even (x / 2 powr of_int (- 1074)) = 0" by (simp only: pe q)
  have "ieee_round 53 1024 x = Fin (real_of_int 0 * 2 powr of_int (- 1074))"
    using x0(1) e r by (rule ieee_round_at) simp
  then show ?thesis by simp
qed


lemma binary64_exact:
  assumes "\<bar>m\<bar> < 2 ^ 53" "j \<le> 1074"
  shows "binary64 (Fin (of_int m / 2 ^ j)) = Fin (of_int m / 2 ^ j)"
  using ieee_round_exact [of m 53 1024 j] assms by (simp add: binary64_def)

lemma binary32_exact:
  assumes "\<bar>m\<bar> < 2 ^ 24" "j \<le> 149"
  shows "binary32 (Fin (of_int m / 2 ^ j)) = Fin (of_int m / 2 ^ j)"
  using ieee_round_exact [of m 24 128 j] assms by (simp add: binary32_def)

lemma binary64_values:
  "binary64 (Fin 0) = Fin 0" "binary64 (Fin 1) = Fin 1" "binary64 (Fin 2) = Fin 2"
  "binary64 (Fin 16) = Fin 16" "binary64 (Fin (- 16)) = Fin (- 16)"
  "binary64 (Fin 32) = Fin 32" "binary64 (Fin 256) = Fin 256" "binary64 (Fin 1024) = Fin 1024"
  "binary64 (Fin (- 128)) = Fin (- 128)" "binary64 (Fin (- 32768)) = Fin (- 32768)"
  "binary64 (Fin (1 / 2)) = Fin (1 / 2)" "binary64 (Fin (1 / 32)) = Fin (1 / 32)"
  using binary64_exact [of 0 0] binary64_exact [of 1 0] binary64_exact [of 2 0]
    binary64_exact [of 16 0] binary64_exact [of "- 16" 0] binary64_exact [of 32 0]
    binary64_exact [of 256 0] binary64_exact [of 1024 0] binary64_exact [of "- 128" 0]
    binary64_exact [of "- 32768" 0] binary64_exact [of 1 1] binary64_exact [of 1 5]
  by simp_all

lemma binary32_values:
  "binary32 (Fin (1 / 256)) = Fin (1 / 256)"
  "binary32 (Fin (1 / 16)) = Fin (1 / 16)"
  "binary32 (Fin (- (1 / 2 ^ 60))) = Fin (- (1 / 2 ^ 60))"
  using binary32_exact [of 1 8] binary32_exact [of 1 4] binary32_exact [of "- 1" 60]
  by simp_all

lemma binary_special:
  "binary64 NInf = NInf" "binary64 PInf = PInf" "binary64 NaN = NaN"
  "binary32 NInf = NInf" "binary32 PInf = PInf" "binary32 NaN = NaN"
  by (simp_all add: binary64_def binary32_def)

lemma exp64_small_miss: "exp64 (Fin (- (1 / 2 ^ 60))) = Fin 1"
proof -
  have "1 + - (1 / 2 ^ 60) \<le> exp (- (1 / 2 ^ 60) :: real)" by (rule exp_ge_add_one_self)
  then have lo: "1 - 1 / 2 ^ 54 < exp (- (1 / 2 ^ 60) :: real)" by simp
  have hi: "exp (- (1 / 2 ^ 60) :: real) < 1" by simp
  show ?thesis using lo hi by (simp add: exp64_def binary64_def ieee_round_below_one)
qed

lemma exp64_far_sample: "exp64 (Fin (- 32768)) = Fin 0"
proof -
  have "(2 :: real) \<le> exp 1" using exp_ge_add_one_self [of "1 :: real"] by simp
  then have "(2 :: real) ^ 1075 \<le> exp 1 ^ 1075" by (intro power_mono) simp_all
  also have "\<dots> = exp (1075 :: real)" using exp_of_nat_mult [of 1075 "1 :: real"] by simp
  also have "\<dots> < exp (32768 :: real)" by simp
  finally have "1 / exp (32768 :: real) < 1 / 2 ^ 1075"
    by (intro divide_strict_left_mono) simp_all
  then have hi: "exp (- 32768 :: real) < 1 / 2 ^ 1075" by (simp add: exp_minus inverse_eq_divide)
  have lo: "0 < exp (- 32768 :: real)" by simp
  show ?thesis using lo hi by (simp add: exp64_def binary64_def ieee_round_underflow)
qed

lemma exp64_small_miss_numeral: "exp64 (Fin (- (1 / 1152921504606846976))) = Fin 1"
  using exp64_small_miss by simp

lemma exp64_zero: "exp64 (Fin 0) = Fin 1"
  by (simp add: exp64_def binary64_values)

lemma sqrt1024: "sqrt 1024 = 32"
  using real_sqrt_abs [of 32] by simp

lemma failing_probability_update:
  "ndt_probability_update64 [Fin 1, Fin 0, Fin 1, Fin 0, Fin 0, Fin 1]
      (Fin (- 16), Fin 0, Fin 0) (Fin 16, Fin 0, Fin 0) (Fin 0, Fin 0, Fin 0)
      (Fin (- (1 / 2 ^ 60))) (Fin (1 / 16)) = (Fin 0, (Fin 0, Fin 0, Fin 0))"
  by (simp add: ndt_probability_update64_def covnormalize64_def covlength2_64_def Let_def
      add64_def sub64_def mul64_def div64_def sqrt64_def mul32_def fsub_def
      binary64_values binary32_values sqrt1024 exp64_small_miss_numeral exp64_zero
      exp64_far_sample)

text \<open>
  The guard of the function discards a probability that is NaN, as its comment
  \<open>Check for NaN\<close> says.
\<close>

lemma calculateMissNdt64_nan_guard:
  assumes "\<not> feq voxel_value uninitialised_value" "sample_threshold \<le> point_count"
    and "fst (ndt_probability_update64 cov_voxel sensor sample voxel_mean miss_value sensor_noise)
           = NaN"
  shows "fst (calculateMissNdt64 cov_voxel voxel_value sensor sample voxel_mean point_count
                uninitialised_value miss_value sensor_noise sample_threshold) = voxel_value"
  using assms by (simp add: calculateMissNdt64_def Let_def not_less [symmetric])

text \<open>
  Claim C4.  A probability adjustment that is not finite is to be discarded.  The guard
  tests the probability for NaN only, and the logarithm of its odds is added unchecked.  A
  ray along the first axis from \<open>(-16, 0, 0)\<close> to the sample \<open>(16, 0, 0)\<close> passes through a
  voxel with 4 samples, the mean \<open>(0, 0, 0)\<close>, the identity as packed covariance and the
  occupancy value 1; the sensor noise is \<open>1/16\<close> and the miss value \<open>-2\<^sup>-\<^sup>6\<^sup>0\<close>, negative as
  documented and a \<open>float\<close>.  Then \<open>exp(miss_value)\<close> is rounded to 1 and the scaling
  factor is \<open>0.5\<close>; the maximum likelihood point is the mean, so \<open>p\<^sub>1 = 1\<close>; \<open>p\<^sub>2\<close> is
  \<open>exp(-32768)\<close>, rounded to 0.  The probability is \<open>0.5 - 0.5 \<cdot> 1 \<cdot> 1 = 0\<close>, it passes
  the guard, and \<open>log(0 / 1)\<close>, negative infinity, is added to the occupancy value.
\<close>

theorem calculateMissNdt64_writes_infinity:
  "flt (Fin (- (1 / 2 ^ 60))) (Fin 0)
   \<and> binary32 (Fin (- (1 / 2 ^ 60))) = Fin (- (1 / 2 ^ 60))
   \<and> fst (ndt_probability_update64 [Fin 1, Fin 0, Fin 1, Fin 0, Fin 0, Fin 1]
           (Fin (- 16), Fin 0, Fin 0) (Fin 16, Fin 0, Fin 0) (Fin 0, Fin 0, Fin 0)
           (Fin (- (1 / 2 ^ 60))) (Fin (1 / 16))) = Fin 0
   \<and> fst (calculateMissNdt64 [Fin 1, Fin 0, Fin 1, Fin 0, Fin 0, Fin 1] (Fin 1)
           (Fin (- 16), Fin 0, Fin 0) (Fin 16, Fin 0, Fin 0) (Fin 0, Fin 0, Fin 0) 4 PInf
           (Fin (- (1 / 2 ^ 60))) (Fin (1 / 16)) 4) = NInf"
proof -
  have w: "fst (calculateMissNdt64 [Fin 1, Fin 0, Fin 1, Fin 0, Fin 0, Fin 1] (Fin 1)
           (Fin (- 16), Fin 0, Fin 0) (Fin 16, Fin 0, Fin 0) (Fin 0, Fin 0, Fin 0) 4 PInf
           (Fin (- (1 / 2 ^ 60))) (Fin (1 / 16)) 4) = NInf"
    unfolding calculateMissNdt64_def Let_def failing_probability_update
    by (simp add: sub64_def div64_def log64_def add32_def fsub_def binary64_values binary_special)
  have m: "flt (Fin (- (1 / 2 ^ 60))) (Fin 0)" by simp
  have p: "fst (ndt_probability_update64 [Fin 1, Fin 0, Fin 1, Fin 0, Fin 0, Fin 1]
           (Fin (- 16), Fin 0, Fin 0) (Fin 16, Fin 0, Fin 0) (Fin 0, Fin 0, Fin 0)
           (Fin (- (1 / 2 ^ 60))) (Fin (1 / 16))) = Fin 0"
    by (simp only: failing_probability_update fst_conv)
  from m binary32_values(3) p w show ?thesis by (intro conjI)
qed

end
